theory Spec2Isabelle
  imports Complex_Main "HOL-Library.Sublist" "HOL-Library.AList"
begin

section \<open>JavaScript values used by the alert engine\<close>

text \<open>
  Strings are byte lists (a character outside ASCII is its UTF-8 bytes). An optional
  property is an \<open>option\<close>: \<open>None\<close> is JavaScript's \<open>undefined\<close>. A property read
  on \<open>undefined\<close> raises a TypeError, which is a value of the model.
  A Date is its number of milliseconds since the epoch; an ObjectId is its string form.
\<close>

datatype js_error = TypeError | DeliveryError

type_synonym oid = string
type_synonym time = int

text \<open>\<open>String.prototype.toLowerCase\<close> and \<open>toUpperCase\<close>, on the ASCII letters.\<close>

definition lower_char :: "char \<Rightarrow> char" where
  "lower_char c =
     (let n = (of_char c :: nat) in if 65 \<le> n \<and> n \<le> 90 then char_of (n + 32) else c)"

definition upper_char :: "char \<Rightarrow> char" where
  "upper_char c =
     (let n = (of_char c :: nat) in if 97 \<le> n \<and> n \<le> 122 then char_of (n - 32) else c)"

definition toLowerCase :: "string \<Rightarrow> string" where
  "toLowerCase s = map lower_char s"

definition toUpperCase :: "string \<Rightarrow> string" where
  "toUpperCase s = map upper_char s"

text \<open>\<open>s.startsWith(t)\<close>, \<open>s.endsWith(t)\<close> and \<open>s.includes(t)\<close>.\<close>

fun startsWith :: "string \<Rightarrow> string \<Rightarrow> bool" where
  "startsWith s [] = True"
| "startsWith [] (d # t) = False"
| "startsWith (c # s) (d # t) = (c = d \<and> startsWith s t)"

definition endsWith :: "string \<Rightarrow> string \<Rightarrow> bool" where
  "endsWith s t = startsWith (rev s) (rev t)"

fun str_includes :: "string \<Rightarrow> string \<Rightarrow> bool" where
  "str_includes [] t = (t = [])"
| "str_includes (c # s) t = (startsWith (c # s) t \<or> str_includes s t)"

text \<open>\<open>x || ''\<close> on an optional string, and the text a template literal inserts.\<close>

fun or_empty :: "string option \<Rightarrow> string" where
  "or_empty None = []"
| "or_empty (Some s) = s"

fun show_opt :: "string option \<Rightarrow> string" where
  "show_opt None = ''undefined''"
| "show_opt (Some s) = s"

text \<open>Truthiness of an optional string and of an optional number.\<close>

fun truthy_str :: "string option \<Rightarrow> bool" where
  "truthy_str None = False"
| "truthy_str (Some s) = (s \<noteq> [])"

fun truthy_num :: "real option \<Rightarrow> bool" where
  "truthy_num None = False"
| "truthy_num (Some v) = (v \<noteq> 0)"

section \<open>Data model\<close>

subsection \<open>Tender (models/Tender.js), as the plain object a lean query returns\<close>

record organization =
  org_name :: "string option"
  org_type :: "string option"

record location =
  province :: "string option"
  district :: "string option"
  city :: "string option"

record dates =
  published :: "time option"
  closing :: "time option"

record estimated_value =
  amount :: "real option"
  currency :: "string option"

record financials =
  estimatedValue :: "estimated_value option"

record tender =
  tender_id :: oid
  title :: "string option"
  description :: "string option"
  fullTextMarkdown :: "string option"
  category :: "string option"
  organization :: "organization option"
  location :: "location option"
  dates :: "dates option"
  financials :: "financials option"
  status :: "string option"
  priority :: "string option"

subsection \<open>User, as populated with \<open>email subscription\<close>\<close>

record features =
  emailAlerts :: "bool option"

record subscription =
  sub_features :: "features option"

record user =
  user_id :: oid
  email :: "string option"
  firstName :: "string option"
  user_name :: "string option"
  user_subscription :: "subscription option"

subsection \<open>AlertConfiguration (models/AlertConfiguration.js), a hydrated document\<close>

datatype match_type = Exact | Contains | Starts_with | Ends_with

record keyword =
  kw_term :: string
  matchType :: match_type

record location_filter =
  provinces :: "string list"
  districts :: "string list"
  cities :: "string list"

record value_range =
  range_min :: "real option"
  range_max :: "real option"
  range_currency :: string

datatype frequency = Immediate | Daily | Weekly

record email_settings =
  enabled :: bool
  freq :: frequency
  customEmail :: "string option"
  lastSentAt :: "time option"
  dailySummaryTime :: string

record stats =
  totalMatches :: nat
  emailsSent :: nat
  lastMatchedTender :: "oid option"
  lastMatchedAt :: "time option"

record advanced_filters =
  excludeKeywords :: "string list"
  minDaysUntilClosing :: "real option"
  maxDaysUntilClosing :: "real option"
  includedStatuses :: "string list"
  includedPriorities :: "string list"

record alert =
  alert_id :: oid
  alert_user :: "user option"
  alert_name :: string
  isActive :: bool
  alert_keywords :: "keyword list"
  categories :: "string list"
  locations :: location_filter
  organizationTypes :: "string list"
  alert_estimatedValue :: value_range
  emailSettings :: email_settings
  alert_stats :: stats
  advancedFilters :: advanced_filters

section \<open>The predicate evaluator: \<open>shouldTriggerForTender\<close>\<close>

text \<open>
  Each check of the method is one definition, in the order of the source. A check
  yields \<open>Inr True\<close> (go on to the next check), \<open>Inr False\<close> (the method returns false)
  or \<open>Inl e\<close> (the method throws). \<open>and_then\<close> is the sequencing of the method body:
  a check that returned false or threw ends the method, later checks are not run.
\<close>

definition and_then :: "js_error + bool \<Rightarrow> (js_error + bool) \<Rightarrow> js_error + bool" where
  "and_then r k = (case r of Inl e \<Rightarrow> Inl e | Inr b \<Rightarrow> if b then k else Inr False)"

text \<open>\<open>arr.some(f)\<close> for a callback that may throw: left to right, stops at the first
  true, a throw ends it.\<close>

fun some_e :: "('a \<Rightarrow> js_error + bool) \<Rightarrow> 'a list \<Rightarrow> js_error + bool" where
  "some_e f [] = Inr False"
| "some_e f (x # xs) =
     (case f x of Inl e \<Rightarrow> Inl e | Inr b \<Rightarrow> if b then Inr True else some_e f xs)"

text \<open>The buffer \<open>`${title} ${description} ${fullText}`\<close>; \<open>tender.title.toLowerCase()\<close>
  throws when the title is undefined, the other two fields default to the empty string.\<close>

definition textToSearch :: "tender \<Rightarrow> js_error + string" where
  "textToSearch t =
     (case title t of
        None \<Rightarrow> Inl TypeError
      | Some ti \<Rightarrow>
          Inr (toLowerCase ti @ '' '' @ toLowerCase (or_empty (description t)) @ '' '' @
               toLowerCase (or_empty (fullTextMarkdown t))))"

text \<open>The \<open>switch (keyword.matchType)\<close> on the buffer and the lower-cased term.\<close>

fun clause_matches :: "match_type \<Rightarrow> string \<Rightarrow> string \<Rightarrow> bool" where
  "clause_matches Exact txt trm =
     (str_includes txt ('' '' @ trm @ '' '') \<or> startsWith txt (trm @ '' '') \<or>
      endsWith txt ('' '' @ trm) \<or> txt = trm)"
| "clause_matches Starts_with txt trm = (str_includes txt ('' '' @ trm) \<or> startsWith txt trm)"
| "clause_matches Ends_with txt trm = (str_includes txt (trm @ '' '') \<or> endsWith txt trm)"
| "clause_matches Contains txt trm = str_includes txt trm"

definition keyword_matches :: "tender \<Rightarrow> keyword \<Rightarrow> js_error + bool" where
  "keyword_matches t k =
     (case textToSearch t of
        Inl e \<Rightarrow> Inl e
      | Inr txt \<Rightarrow> Inr (clause_matches (matchType k) txt (toLowerCase (kw_term k))))"

definition check_keywords :: "alert \<Rightarrow> tender \<Rightarrow> js_error + bool" where
  "check_keywords a t =
     (if alert_keywords a \<noteq> [] then some_e (keyword_matches t) (alert_keywords a)
      else Inr True)"

definition check_excludeKeywords :: "alert \<Rightarrow> tender \<Rightarrow> js_error + bool" where
  "check_excludeKeywords a t =
     (if excludeKeywords (advancedFilters a) \<noteq> [] then
        (case textToSearch t of
           Inl e \<Rightarrow> Inl e
         | Inr txt \<Rightarrow>
             Inr (\<not> list_ex (\<lambda>k. str_includes txt (toLowerCase k))
                        (excludeKeywords (advancedFilters a))))
      else Inr True)"

text \<open>\<open>arr.includes(v)\<close> for an optional string \<open>v\<close>: undefined is in no list of strings.\<close>

fun member_opt :: "string list \<Rightarrow> string option \<Rightarrow> bool" where
  "member_opt xs None = False"
| "member_opt xs (Some v) = (v \<in> set xs)"

definition check_categories :: "alert \<Rightarrow> tender \<Rightarrow> js_error + bool" where
  "check_categories a t =
     Inr (\<not> (categories a \<noteq> [] \<and> \<not> member_opt (categories a) (category t)))"

text \<open>The three location filters read \<open>tender.location.x\<close> only when their own list is
  not empty (\<open>&&\<close> short-circuits); the read throws when \<open>tender.location\<close> is undefined.\<close>

definition check_provinces :: "alert \<Rightarrow> tender \<Rightarrow> js_error + bool" where
  "check_provinces a t =
     (if provinces (locations a) \<noteq> [] then
        (case location t of
           None \<Rightarrow> Inl TypeError
         | Some l \<Rightarrow> Inr (member_opt (provinces (locations a)) (province l)))
      else Inr True)"

definition check_districts :: "alert \<Rightarrow> tender \<Rightarrow> js_error + bool" where
  "check_districts a t =
     (if districts (locations a) \<noteq> [] then
        (case location t of
           None \<Rightarrow> Inl TypeError
         | Some l \<Rightarrow> Inr (member_opt (districts (locations a)) (district l)))
      else Inr True)"

definition check_cities :: "alert \<Rightarrow> tender \<Rightarrow> js_error + bool" where
  "check_cities a t =
     (if cities (locations a) \<noteq> [] then
        (case location t of
           None \<Rightarrow> Inl TypeError
         | Some l \<Rightarrow>
             Inr (\<not> (truthy_str (city l) \<and> \<not> member_opt (cities (locations a)) (city l))))
      else Inr True)"

definition check_organizationTypes :: "alert \<Rightarrow> tender \<Rightarrow> js_error + bool" where
  "check_organizationTypes a t =
     (if organizationTypes a \<noteq> [] then
        (case organization t of
           None \<Rightarrow> Inl TypeError
         | Some og \<Rightarrow> Inr (member_opt (organizationTypes a) (org_type og)))
      else Inr True)"

text \<open>\<open>tender.financials?.estimatedValue?.amount\<close>.\<close>

definition tenderValue :: "tender \<Rightarrow> real option" where
  "tenderValue t =
     (case financials t of
        None \<Rightarrow> None
      | Some f \<Rightarrow> (case estimatedValue f of None \<Rightarrow> None | Some ev \<Rightarrow> amount ev))"

text \<open>The value-range check. Every test of it is a truthiness test: a bound or an
  amount that is undefined or 0 is skipped.\<close>

definition valueRangeCheck :: "alert \<Rightarrow> tender \<Rightarrow> bool" where
  "valueRangeCheck a t =
     (let lo = range_min (alert_estimatedValue a); hi = range_max (alert_estimatedValue a) in
      if truthy_num lo \<or> truthy_num hi then
        (case tenderValue t of
           None \<Rightarrow> True
         | Some v \<Rightarrow>
             if v \<noteq> 0 then
               (if truthy_num lo \<and> v < the lo then False
                else if truthy_num hi \<and> v > the hi then False
                else True)
             else True)
      else True)"

text \<open>\<open>Math.ceil((closingDate - now) / (1000 * 60 * 60 * 24))\<close>; an undefined closing date
  makes the Date invalid and the result NaN (\<open>None\<close>), against which every comparison
  is false.\<close>

definition daysUntilClosing :: "time \<Rightarrow> time option \<Rightarrow> real option" where
  "daysUntilClosing now c =
     (case c of
        None \<Rightarrow> None
      | Some cl \<Rightarrow> Some (of_int \<lceil>(of_int (cl - now) :: real) / (1000 * 60 * 60 * 24)\<rceil>))"

definition check_daysUntilClosing :: "time \<Rightarrow> alert \<Rightarrow> tender \<Rightarrow> js_error + bool" where
  "check_daysUntilClosing now a t =
     (let lo = minDaysUntilClosing (advancedFilters a);
          hi = maxDaysUntilClosing (advancedFilters a) in
      if truthy_num lo \<or> truthy_num hi then
        (case dates t of
           None \<Rightarrow> Inl TypeError
         | Some ds \<Rightarrow>
             (case daysUntilClosing now (closing ds) of
                None \<Rightarrow> Inr True
              | Some d \<Rightarrow>
                  if truthy_num lo \<and> d < the lo then Inr False
                  else if truthy_num hi \<and> d > the hi then Inr False
                  else Inr True))
      else Inr True)"

definition check_statuses :: "alert \<Rightarrow> tender \<Rightarrow> js_error + bool" where
  "check_statuses a t =
     Inr (\<not> (includedStatuses (advancedFilters a) \<noteq> [] \<and>
              \<not> member_opt (includedStatuses (advancedFilters a)) (status t)))"

definition check_priorities :: "alert \<Rightarrow> tender \<Rightarrow> js_error + bool" where
  "check_priorities a t =
     Inr (\<not> (includedPriorities (advancedFilters a) \<noteq> [] \<and>
              \<not> member_opt (includedPriorities (advancedFilters a)) (priority t)))"

text \<open>The method: \<open>now\<close> is the clock value \<open>new Date()\<close> reads.\<close>

definition shouldTriggerForTender :: "time \<Rightarrow> alert \<Rightarrow> tender \<Rightarrow> js_error + bool" where
  "shouldTriggerForTender now a t =
     and_then (Inr (isActive a))
    (and_then (check_keywords a t)
    (and_then (check_excludeKeywords a t)
    (and_then (check_categories a t)
    (and_then (check_provinces a t)
    (and_then (check_districts a t)
    (and_then (check_cities a t)
    (and_then (check_organizationTypes a t)
    (and_then (Inr (valueRangeCheck a t))
    (and_then (check_daysUntilClosing now a t)
    (and_then (check_statuses a t)
    (check_priorities a t)))))))))))"

text \<open>
  A daily or weekly run calls the method many times, around awaited sends and saves, and
  each call reads the clock anew. The readings are a parameter of the run: \<open>clk ph c r\<close>
  is the value \<open>new Date()\<close> reads in the call about the configuration of id \<open>c\<close> and
  the record of id \<open>r\<close> in
  \<^item> \<open>Matching\<close>: \<open>shouldTriggerForTender\<close> in the first loop over an owner's
    configurations;
  \<^item> \<open>Grouping\<close>: \<open>shouldTriggerForTender\<close> in \<open>groupTendersByAlert\<close>, during the send;
  \<^item> \<open>Counting\<close>: \<open>shouldTriggerForTender\<close> in the second loop, after the send;
  \<^item> \<open>Recording\<close>: \<open>updateStats\<close> (\<open>lastMatchedAt\<close>);
  \<^item> \<open>Sent\<close>: \<open>incrementEmailSent\<close> (\<open>lastSentAt\<close>; the record id is empty).

  The ids of the documents of a collection are distinct, so no two calls of a run share a
  reading.
\<close>

datatype clock_phase = Matching | Grouping | Counting | Recording | Sent

type_synonym clock = "clock_phase \<Rightarrow> oid \<Rightarrow> oid \<Rightarrow> time"

definition trigger_at :: "clock \<Rightarrow> clock_phase \<Rightarrow> alert \<Rightarrow> tender \<Rightarrow> js_error + bool" where
  "trigger_at clk ph a t = shouldTriggerForTender (clk ph (alert_id a) (tender_id t)) a t"

section \<open>The notification renderer (services/emailService.js)\<close>

text \<open>
  A template literal is a list of literal chunks and holes \<open>${...}\<close>; rendering it
  evaluates the holes from left to right and concatenates, and a hole whose expression
  throws makes the whole template throw. The literal chunks below are those of the
  source, byte for byte (\<open>nl\<close> is the line feed).
\<close>

abbreviation nl :: string where
  "nl \<equiv> [CHR 0x0A]"

datatype 'h part = Lit string | Hole 'h

fun render :: "('h \<Rightarrow> js_error + string) \<Rightarrow> 'h part list \<Rightarrow> js_error + string" where
  "render f [] = Inr []"
| "render f (Lit s # ps) =
     (case render f ps of Inl e \<Rightarrow> Inl e | Inr r \<Rightarrow> Inr (s @ r))"
| "render f (Hole h # ps) =
     (case f h of
        Inl e \<Rightarrow> Inl e
      | Inr v \<Rightarrow> (case render f ps of Inl e \<Rightarrow> Inl e | Inr r \<Rightarrow> Inr (v @ r)))"

text \<open>\<open>arr.map(f).join('')\<close> and \<open>arr.filter(f)\<close> for a callback that may throw.\<close>

fun concat_map_e :: "('a \<Rightarrow> js_error + string) \<Rightarrow> 'a list \<Rightarrow> js_error + string" where
  "concat_map_e f [] = Inr []"
| "concat_map_e f (x # xs) =
     (case f x of
        Inl e \<Rightarrow> Inl e
      | Inr s \<Rightarrow> (case concat_map_e f xs of Inl e \<Rightarrow> Inl e | Inr r \<Rightarrow> Inr (s @ r)))"

fun filter_e :: "('a \<Rightarrow> js_error + bool) \<Rightarrow> 'a list \<Rightarrow> js_error + 'a list" where
  "filter_e f [] = Inr []"
| "filter_e f (x # xs) =
     (case f x of
        Inl e \<Rightarrow> Inl e
      | Inr b \<Rightarrow>
          (case filter_e f xs of
             Inl e \<Rightarrow> Inl e
           | Inr r \<Rightarrow> Inr (if b then x # r else r)))"

text \<open>The decimal text of a count, as a template literal inserts it.\<close>

fun show_nat :: "nat \<Rightarrow> string" where
  "show_nat n =
     (if n < 10 then [char_of (48 + n)]
      else show_nat (n div 10) @ [char_of (48 + n mod 10)])"

declare show_nat.simps [simp del]

subsection \<open>The environment of the email service\<close>

text \<open>
  What the service reads from outside the repository is a parameter: the variables of
  \<open>process.env\<close>, the locale formatting of dates and numbers
  (\<open>toLocaleDateString('en-US', {year, month: 'long', day})\<close>, \<open>toLocaleDateString()\<close>,
  \<open>toLocaleString()\<close>) and the field \<open>this.transporter\<close> of the service as a send finds
  it: \<open>None\<close> is \<open>null\<close>, the value the constructor sets and that stays when no
  initialisation has made a transporter (\<open>nodemailer\<close> is outside the repository);
  otherwise its \<open>sendMail\<close> resolves (\<open>True\<close>) or rejects (\<open>False\<close>) on a message. The
  constant headers of a message are left out of \<open>mail_options\<close>.
\<close>

record mail_options =
  mail_from :: string
  mail_to :: "string option"
  mail_subject :: string
  mail_text :: string
  mail_html :: string

record env =
  frontend_url :: "string option"
  gmail_user_email :: "string option"
  from_email :: "string option"
  fmt_date_long :: "time option \<Rightarrow> string"
  fmt_date :: "time option \<Rightarrow> string"
  fmt_number :: "real \<Rightarrow> string"
  transporter :: "(mail_options \<Rightarrow> bool) option"

definition base_url :: "env \<Rightarrow> string" where
  "base_url e =
     (if truthy_str (frontend_url e) then or_empty (frontend_url e)
      else ''https://lankatender.com'')"

definition from_address :: "env \<Rightarrow> string" where
  "from_address e =
     (if truthy_str (gmail_user_email e) then or_empty (gmail_user_email e)
      else if truthy_str (from_email e) then or_empty (from_email e)
      else ''noreply@lankatender.com'')"

subsection \<open>The holes of the templates\<close>

datatype value_hole = V_currency | V_amount

datatype tender_hole =
  H_index | H_title | H_category | H_org_type | H_org_name
  | H_description_excerpt | H_description_ellipsis | H_district | H_province
  | H_closing_long | H_closing | H_value_html | H_value_text | H_base_url | H_tender_id

datatype alert_hole =
  A_name | A_rule | A_count | A_plural_s | A_plural_es | A_cards | A_items | A_base_url

datatype section_hole = Sec_name | Sec_count | Sec_rule | Sec_rows | Sec_items

datatype summary_hole =
  S_frequency | S_frequency_upper | S_frequency_lower | S_frequency_capitalised | S_rule
  | S_total | S_greeting | S_sections_html | S_sections_text | S_zero_text | S_base_url

subsection \<open>The HTML templates\<close>

definition value_html :: "value_hole part list" where
  \<open>value_html =
    [Lit (nl @ ''          <div style="margin-bottom: 10px;">'' @ nl @
          ''            <strong style="color: #2c3e50;">Estimated Value:</strong>'' @ nl @
          ''            ''),
     Hole V_currency,
     Lit ('' ''),
     Hole V_amount,
     Lit (nl @ ''          </div>'' @ nl @ ''        '')]\<close>

definition alert_card_html :: "tender_hole part list" where
  \<open>alert_card_html =
    [Lit (nl @
          ''      <div style="border: 1px solid #e0e0e0; border-radius: 8px; padding: 20px; margin-bottom: 20px; background-color: #ffffff;">'' @
          nl @ ''        <h3 style="color: #2c3e50; margin-top: 0; font-size: 18px;">'' @ nl @
          ''          ''),
     Hole H_title,
     Lit (nl @ ''        </h3>'' @ nl @ ''        <div style="margin-bottom: 15px;">'' @ nl @
          ''          <span style="background-color: #f8f9fa; padding: 4px 8px; border-radius: 4px; font-size: 12px; color: #6c757d;">'' @
          nl @ ''            ''),
     Hole H_category,
     Lit (nl @ ''          </span>'' @ nl @
          ''          <span style="background-color: #e3f2fd; padding: 4px 8px; border-radius: 4px; font-size: 12px; color: #1976d2; margin-left: 8px;">'' @
          nl @ ''            ''),
     Hole H_org_type,
     Lit (nl @ ''          </span>'' @ nl @ ''        </div>'' @ nl @
          ''        <p style="color: #555555; line-height: 1.5; margin-bottom: 15px;">'' @ nl @
          ''          ''),
     Hole H_description_excerpt,
     Hole H_description_ellipsis,
     Lit (nl @ ''        </p>'' @ nl @
          ''        <div style="display: flex; justify-content: space-between; align-items: center; margin-bottom: 10px;">'' @
          nl @ ''          <div>'' @ nl @
          ''            <strong style="color: #2c3e50;">Organization:</strong> ''),
     Hole H_org_name,
     Lit (''<br>'' @ nl @ ''            <strong style="color: #2c3e50;">Location:</strong> ''),
     Hole H_district,
     Lit ('', ''),
     Hole H_province,
     Lit (nl @ ''          </div>'' @ nl @ ''          <div style="text-align: right;">'' @ nl @
          ''            <div style="font-size: 12px; color: #6c757d;">Closes on</div>'' @ nl @
          ''            <div style="font-weight: bold; color: #e74c3c;">'' @ nl @ ''              ''),
     Hole H_closing_long,
     Lit (nl @ ''            </div>'' @ nl @ ''          </div>'' @ nl @ ''        </div>'' @ nl @
          ''        ''),
     Hole H_value_html,
     Lit (nl @ ''        <div style="margin-top: 15px; text-align: right;">'' @ nl @
          ''          <a href="''),
     Hole H_base_url,
     Lit (''/tenders/''),
     Hole H_tender_id,
     Lit (''"'' @ nl @
          ''             style="background-color: #ff6b35; color: white; padding: 8px 16px; text-decoration: none; border-radius: 4px; font-size: 14px;">'' @
          nl @ ''            View Tender '' @ [CHR 0xE2, CHR 0x86, CHR 0x92] @ nl @ ''          </a>'' @
          nl @ ''        </div>'' @ nl @ ''      </div>'' @ nl @ ''    '')]\<close>

definition alert_page_html :: "alert_hole part list" where
  \<open>alert_page_html =
    [Lit (nl @ ''    <!DOCTYPE html>'' @ nl @ ''    <html lang="en">'' @ nl @ ''    <head>'' @ nl @
          ''      <meta charset="UTF-8">'' @ nl @
          ''      <meta name="viewport" content="width=device-width, initial-scale=1.0">'' @ nl @
          ''      <title>Tender Alert - ''),
     Hole A_name,
     Lit (''</title>'' @ nl @ ''    </head>'' @ nl @
          ''    <body style="font-family: -apple-system, BlinkMacSystemFont, 'Segoe UI', Roboto, sans-serif; line-height: 1.6; color: #333; background-color: #f5f5f5; margin: 0; padding: 20px;">'' @
          nl @
          ''      <div style="max-width: 600px; margin: 0 auto; background-color: #ffffff; border-radius: 10px; overflow: hidden; box-shadow: 0 4px 6px rgba(0, 0, 0, 0.1);">'' @
          nl @ nl @ ''        <!-- Header -->'' @ nl @
          ''        <div style="background: linear-gradient(135deg, #ff6b35, #f7931e); color: white; padding: 30px 20px; text-align: center;">'' @
          nl @ ''          <h1 style="margin: 0; font-size: 24px; font-weight: 600;">'' @
          [CHR 0xF0, CHR 0x9F, CHR 0x94, CHR 0x94] @ '' Tender Alert</h1>'' @ nl @
          ''          <p style="margin: 8px 0 0 0; opacity: 0.9; font-size: 16px;">''),
     Hole A_name,
     Lit (''</p>'' @ nl @ ''        </div>'' @ nl @ nl @ ''        <!-- Content -->'' @ nl @
          ''        <div style="padding: 30px 20px;">'' @ nl @
          ''          <p style="font-size: 16px; color: #2c3e50; margin-bottom: 25px;">'' @ nl @
          ''            Great news! We found ''),
     Hole A_count,
     Lit ('' new tender''),
     Hole A_plural_s,
     Lit ('' that match''),
     Hole A_plural_es,
     Lit ('' your alert criteria:'' @ nl @ ''          </p>'' @ nl @ nl @ ''          ''),
     Hole A_cards,
     Lit (nl @ ''        </div>'' @ nl @ nl @ ''        <!-- Footer -->'' @ nl @
          ''        <div style="background-color: #f8f9fa; padding: 20px; text-align: center; border-top: 1px solid #e9ecef;">'' @
          nl @ ''          <p style="margin: 0; font-size: 14px; color: #6c757d;">'' @ nl @
          ''            This alert was sent because you have configured keyword monitoring.<br>'' @ nl @
          ''            <a href="''),
     Hole A_base_url,
     Lit (''/alerts" style="color: #ff6b35; text-decoration: none;">'' @ nl @
          ''              Manage your alerts'' @ nl @ ''            </a> |'' @ nl @
          ''            <a href="''),
     Hole A_base_url,
     Lit (''/unsubscribe" style="color: #6c757d; text-decoration: none;">'' @ nl @
          ''              Unsubscribe'' @ nl @ ''            </a>'' @ nl @ ''          </p>'' @ nl @
          ''        </div>'' @ nl @ ''      </div>'' @ nl @ ''    </body>'' @ nl @ ''    </html>'')]\<close>

definition summary_row_html :: "tender_hole part list" where
  \<open>summary_row_html =
    [Lit (nl @ ''        <tr style="border-bottom: 1px solid #e9ecef;">'' @ nl @
          ''          <td style="padding: 12px 0;">'' @ nl @
          ''            <div style="font-weight: 600; color: #2c3e50; margin-bottom: 4px;">''),
     Hole H_title,
     Lit (''</div>'' @ nl @
          ''            <div style="font-size: 14px; color: #6c757d; margin-bottom: 4px;">''),
     Hole H_org_name,
     Lit (''</div>'' @ nl @ ''            <div style="font-size: 12px; color: #adb5bd;">'' @ nl @
          ''              ''),
     Hole H_district,
     Lit ('', ''),
     Hole H_province,
     Lit ('' '' @ [CHR 0xE2, CHR 0x80, CHR 0xA2] @ nl @ ''              Closes: ''),
     Hole H_closing,
     Lit (nl @ ''            </div>'' @ nl @ ''          </td>'' @ nl @
          ''          <td style="padding: 12px 0; text-align: right;">'' @ nl @ ''            <a href="''),
     Hole H_base_url,
     Lit (''/tenders/''),
     Hole H_tender_id,
     Lit (''"'' @ nl @
          ''               style="background-color: #ff6b35; color: white; padding: 6px 12px; text-decoration: none; border-radius: 4px; font-size: 12px;">'' @
          nl @ ''              View'' @ nl @ ''            </a>'' @ nl @ ''          </td>'' @ nl @
          ''        </tr>'' @ nl @ ''      '')]\<close>

definition summary_section_html :: "section_hole part list" where
  \<open>summary_section_html =
    [Lit (nl @ ''        <div style="margin-bottom: 30px;">'' @ nl @
          ''          <h3 style="color: #2c3e50; margin-bottom: 15px; padding-bottom: 8px; border-bottom: 2px solid #ff6b35;">'' @
          nl @ ''            '' @ [CHR 0xF0, CHR 0x9F, CHR 0x93, CHR 0x8B] @ '' ''),
     Hole Sec_name,
     Lit ('' (''),
     Hole Sec_count,
     Lit ('' matches)'' @ nl @ ''          </h3>'' @ nl @
          ''          <table style="width: 100%; border-collapse: collapse;">'' @ nl @ ''            ''),
     Hole Sec_rows,
     Lit (nl @ ''          </table>'' @ nl @ ''        </div>'' @ nl @ ''      '')]\<close>

definition summary_zero_page_html :: "summary_hole part list" where
  \<open>summary_zero_page_html =
    [Lit (nl @ ''      <!DOCTYPE html>'' @ nl @ ''      <html lang="en">'' @ nl @ ''      <head>'' @ nl @
          ''        <meta charset="UTF-8">'' @ nl @
          ''        <meta name="viewport" content="width=device-width, initial-scale=1.0">'' @ nl @
          ''        <title>''),
     Hole S_frequency,
     Lit ('' Tender Summary</title>'' @ nl @ ''      </head>'' @ nl @
          ''      <body style="font-family: -apple-system, BlinkMacSystemFont, 'Segoe UI', Roboto, sans-serif; line-height: 1.6; color: #333; background-color: #f5f5f5; margin: 0; padding: 20px;">'' @
          nl @
          ''        <div style="max-width: 600px; margin: 0 auto; background-color: #ffffff; border-radius: 10px; padding: 40px; text-align: center;">'' @
          nl @ ''          <h2 style="color: #6c757d;">No New Matches</h2>'' @ nl @
          ''          <p style="color: #6c757d;">No new tenders matched your alert criteria this ''),
     Hole S_frequency_lower,
     Lit (''.</p>'' @ nl @ ''        </div>'' @ nl @ ''      </body>'' @ nl @ ''      </html>'')]\<close>

definition summary_page_html :: "summary_hole part list" where
  \<open>summary_page_html =
    [Lit (nl @ ''    <!DOCTYPE html>'' @ nl @ ''    <html lang="en">'' @ nl @ ''    <head>'' @ nl @
          ''      <meta charset="UTF-8">'' @ nl @
          ''      <meta name="viewport" content="width=device-width, initial-scale=1.0">'' @ nl @
          ''      <title>''),
     Hole S_frequency,
     Lit ('' Tender Summary</title>'' @ nl @ ''    </head>'' @ nl @
          ''    <body style="font-family: -apple-system, BlinkMacSystemFont, 'Segoe UI', Roboto, sans-serif; line-height: 1.6; color: #333; background-color: #f5f5f5; margin: 0; padding: 20px;">'' @
          nl @
          ''      <div style="max-width: 600px; margin: 0 auto; background-color: #ffffff; border-radius: 10px; overflow: hidden; box-shadow: 0 4px 6px rgba(0, 0, 0, 0.1);">'' @
          nl @ nl @ ''        <!-- Header -->'' @ nl @
          ''        <div style="background: linear-gradient(135deg, #ff6b35, #f7931e); color: white; padding: 30px 20px; text-align: center;">'' @
          nl @ ''          <h1 style="margin: 0; font-size: 24px; font-weight: 600;">'' @
          [CHR 0xF0, CHR 0x9F, CHR 0x93, CHR 0x8A] @ '' ''),
     Hole S_frequency_capitalised,
     Lit ('' Summary</h1>'' @ nl @
          ''          <p style="margin: 8px 0 0 0; opacity: 0.9; font-size: 16px;">''),
     Hole S_total,
     Lit ('' new tender matches</p>'' @ nl @ ''        </div>'' @ nl @ nl @ ''        <!-- Content -->'' @
          nl @ ''        <div style="padding: 30px 20px;">'' @ nl @
          ''          <p style="font-size: 16px; color: #2c3e50; margin-bottom: 25px;">'' @ nl @
          ''            Hello ''),
     Hole S_greeting,
     Lit (''! Here's your ''),
     Hole S_frequency_lower,
     Lit ('' tender summary:'' @ nl @ ''          </p>'' @ nl @ nl @ ''          ''),
     Hole S_sections_html,
     Lit (nl @ ''        </div>'' @ nl @ nl @ ''        <!-- Footer -->'' @ nl @
          ''        <div style="background-color: #f8f9fa; padding: 20px; text-align: center; border-top: 1px solid #e9ecef;">'' @
          nl @ ''          <p style="margin: 0; font-size: 14px; color: #6c757d;">'' @ nl @
          ''            <a href="''),
     Hole S_base_url,
     Lit (''/alerts" style="color: #ff6b35; text-decoration: none;">'' @ nl @
          ''              Manage your alerts'' @ nl @ ''            </a> |'' @ nl @
          ''            <a href="''),
     Hole S_base_url,
     Lit (''/unsubscribe" style="color: #6c757d; text-decoration: none;">'' @ nl @
          ''              Unsubscribe'' @ nl @ ''            </a>'' @ nl @ ''          </p>'' @ nl @
          ''        </div>'' @ nl @ ''      </div>'' @ nl @ ''    </body>'' @ nl @ ''    </html>'')]\<close>


subsection \<open>The text templates (the \<open>text += ...\<close> statements, in order)\<close>

definition value_text :: "value_hole part list" where
  \<open>value_text =
    [Lit ''   Estimated Value: '', Hole V_currency, Lit '' '', Hole V_amount, Lit nl]\<close>

definition alert_item_text :: "tender_hole part list" where
  \<open>alert_item_text =
    [Hole H_index, Lit ''. '', Hole H_title, Lit nl,
     Lit ''   Category: '', Hole H_category, Lit nl,
     Lit ''   Organization: '', Hole H_org_name, Lit '' ('', Hole H_org_type, Lit ('')'' @ nl),
     Lit ''   Location: '', Hole H_district, Lit '', '', Hole H_province, Lit nl,
     Lit ''   Closing Date: '', Hole H_closing, Lit nl,
     Hole H_value_text,
     Lit ''   Link: '', Hole H_base_url, Lit ''/tenders/'', Hole H_tender_id, Lit (nl @ nl)]\<close>

definition alert_page_text :: "alert_hole part list" where
  \<open>alert_page_text =
    [Lit ''TENDER ALERT: '', Hole A_name, Lit nl,
     Hole A_rule, Lit (nl @ nl),
     Lit ''We found '', Hole A_count, Lit '' new tender'', Hole A_plural_s,
     Lit '' that match'', Hole A_plural_es, Lit ('' your criteria:'' @ nl @ nl),
     Hole A_items,
     Lit ''Manage your alerts: '', Hole A_base_url, Lit (''/alerts'' @ nl),
     Lit ''Unsubscribe: '', Hole A_base_url, Lit (''/unsubscribe'' @ nl)]\<close>

definition summary_item_text :: "tender_hole part list" where
  \<open>summary_item_text =
    [Hole H_index, Lit ''. '', Hole H_title, Lit nl,
     Lit ''   '', Hole H_org_name, Lit nl,
     Lit ''   '', Hole H_district, Lit '', '', Hole H_province, Lit nl,
     Lit ''   Closes: '', Hole H_closing, Lit nl,
     Lit ''   Link: '', Hole H_base_url, Lit ''/tenders/'', Hole H_tender_id, Lit (nl @ nl)]\<close>

definition summary_section_text :: "section_hole part list" where
  \<open>summary_section_text =
    [Hole Sec_name, Lit '' ('', Hole Sec_count, Lit ('' matches)'' @ nl),
     Hole Sec_rule, Lit nl,
     Hole Sec_items]\<close>

definition summary_page_text :: "summary_hole part list" where
  \<open>summary_page_text =
    [Hole S_frequency_upper, Lit ('' TENDER SUMMARY'' @ nl),
     Hole S_rule, Lit (nl @ nl),
     Lit ''Hello '', Hole S_greeting, Lit (''!'' @ nl @ nl),
     Hole S_sections_text,
     Hole S_zero_text,
     Lit ''Manage your alerts: '', Hole S_base_url, Lit (''/alerts'' @ nl),
     Lit ''Unsubscribe: '', Hole S_base_url, Lit (''/unsubscribe'' @ nl)]\<close>

subsection \<open>The values of the holes\<close>

fun value_hole_value :: "env \<Rightarrow> estimated_value \<Rightarrow> value_hole \<Rightarrow> js_error + string" where
  "value_hole_value e ev V_currency = Inr (show_opt (currency ev))"
| "value_hole_value e ev V_amount =
     (case amount ev of None \<Rightarrow> Inl TypeError | Some v \<Rightarrow> Inr (fmt_number e v))"

text \<open>The block guarded by \<open>tender.financials?.estimatedValue\<close>.\<close>

definition value_block :: "env \<Rightarrow> value_hole part list \<Rightarrow> tender \<Rightarrow> js_error + string" where
  "value_block e tpl t =
     (case financials t of
        None \<Rightarrow> Inr []
      | Some f \<Rightarrow>
          (case estimatedValue f of
             None \<Rightarrow> Inr []
           | Some ev \<Rightarrow> render (value_hole_value e ev) tpl))"

fun tender_hole_value :: "env \<Rightarrow> nat \<Rightarrow> tender \<Rightarrow> tender_hole \<Rightarrow> js_error + string" where
  "tender_hole_value e i t H_index = Inr (show_nat (i + 1))"
| "tender_hole_value e i t H_title = Inr (show_opt (title t))"
| "tender_hole_value e i t H_category = Inr (show_opt (category t))"
| "tender_hole_value e i t H_org_type =
     (case organization t of None \<Rightarrow> Inl TypeError | Some og \<Rightarrow> Inr (show_opt (org_type og)))"
| "tender_hole_value e i t H_org_name =
     (case organization t of None \<Rightarrow> Inl TypeError | Some og \<Rightarrow> Inr (show_opt (org_name og)))"
| "tender_hole_value e i t H_description_excerpt =
     (case description t of None \<Rightarrow> Inl TypeError | Some d \<Rightarrow> Inr (take 200 d))"
| "tender_hole_value e i t H_description_ellipsis =
     (case description t of
        None \<Rightarrow> Inl TypeError
      | Some d \<Rightarrow> Inr (if length d > 200 then ''...'' else []))"
| "tender_hole_value e i t H_district =
     (case location t of None \<Rightarrow> Inl TypeError | Some l \<Rightarrow> Inr (show_opt (district l)))"
| "tender_hole_value e i t H_province =
     (case location t of None \<Rightarrow> Inl TypeError | Some l \<Rightarrow> Inr (show_opt (province l)))"
| "tender_hole_value e i t H_closing_long =
     (case dates t of None \<Rightarrow> Inl TypeError | Some ds \<Rightarrow> Inr (fmt_date_long e (closing ds)))"
| "tender_hole_value e i t H_closing =
     (case dates t of None \<Rightarrow> Inl TypeError | Some ds \<Rightarrow> Inr (fmt_date e (closing ds)))"
| "tender_hole_value e i t H_value_html = value_block e value_html t"
| "tender_hole_value e i t H_value_text = value_block e value_text t"
| "tender_hole_value e i t H_base_url = Inr (base_url e)"
| "tender_hole_value e i t H_tender_id = Inr (tender_id t)"

text \<open>A list of records rendered with one template each: \<open>map(...).join('')\<close> in the
  HTML, \<open>forEach((tender, index) => ...)\<close> in the text.\<close>

definition render_tenders :: "env \<Rightarrow> tender_hole part list \<Rightarrow> tender list \<Rightarrow> js_error + string" where
  "render_tenders e tpl ts =
     concat_map_e (\<lambda>(i, t). render (tender_hole_value e i t) tpl) (enumerate 0 ts)"

fun alert_hole_value :: "env \<Rightarrow> tender list \<Rightarrow> alert \<Rightarrow> alert_hole \<Rightarrow> js_error + string" where
  "alert_hole_value e ts a A_name = Inr (alert_name a)"
| "alert_hole_value e ts a A_rule = Inr (replicate 50 CHR ''='')"
| "alert_hole_value e ts a A_count = Inr (show_nat (length ts))"
| "alert_hole_value e ts a A_plural_s = Inr (if length ts > 1 then ''s'' else [])"
| "alert_hole_value e ts a A_plural_es = Inr (if length ts = 1 then ''es'' else [])"
| "alert_hole_value e ts a A_cards = render_tenders e alert_card_html ts"
| "alert_hole_value e ts a A_items = render_tenders e alert_item_text ts"
| "alert_hole_value e ts a A_base_url = Inr (base_url e)"

definition generateAlertEmailHTML :: "env \<Rightarrow> tender list \<Rightarrow> alert \<Rightarrow> js_error + string" where
  "generateAlertEmailHTML e ts a = render (alert_hole_value e ts a) alert_page_html"

definition generateAlertEmailText :: "env \<Rightarrow> tender list \<Rightarrow> alert \<Rightarrow> js_error + string" where
  "generateAlertEmailText e ts a = render (alert_hole_value e ts a) alert_page_text"

text \<open>A summary is rendered from \<open>groupedTenders\<close>: per configuration id, the configuration and
  the records it matches, in the order of \<open>Object.entries\<close>.\<close>

type_synonym grouped = "(oid \<times> alert \<times> tender list) list"

fun section_hole_value :: "env \<Rightarrow> alert \<Rightarrow> tender list \<Rightarrow> section_hole \<Rightarrow> js_error + string" where
  "section_hole_value e c ts Sec_name = Inr (alert_name c)"
| "section_hole_value e c ts Sec_count = Inr (show_nat (length ts))"
| "section_hole_value e c ts Sec_rule = Inr (replicate 30 CHR ''-'')"
| "section_hole_value e c ts Sec_rows = render_tenders e summary_row_html ts"
| "section_hole_value e c ts Sec_items = render_tenders e summary_item_text ts"

text \<open>One entry of \<open>groupedTenders\<close>: a section with no record renders as nothing.\<close>

definition render_section :: "env \<Rightarrow> section_hole part list \<Rightarrow> oid \<times> alert \<times> tender list \<Rightarrow> js_error + string" where
  "render_section e tpl entry =
     (case entry of (k, c, ts) \<Rightarrow>
        if ts = [] then Inr [] else render (section_hole_value e c ts) tpl)"

definition totalTenders :: "grouped \<Rightarrow> nat" where
  "totalTenders g = sum_list (map (\<lambda>(k, c, ts). length ts) g)"

text \<open>\<open>user.firstName || user.name || 'there'\<close>.\<close>

definition greeting_name :: "user \<Rightarrow> string" where
  "greeting_name u =
     (if truthy_str (firstName u) then or_empty (firstName u)
      else if truthy_str (user_name u) then or_empty (user_name u)
      else ''there'')"

fun summary_hole_value :: "env \<Rightarrow> grouped \<Rightarrow> string \<Rightarrow> user \<Rightarrow> summary_hole \<Rightarrow> js_error + string" where
  "summary_hole_value e g f u S_frequency = Inr f"
| "summary_hole_value e g f u S_frequency_upper = Inr (toUpperCase f)"
| "summary_hole_value e g f u S_frequency_lower = Inr (toLowerCase f)"
| "summary_hole_value e g f u S_frequency_capitalised = Inr (toUpperCase (take 1 f) @ drop 1 f)"
| "summary_hole_value e g f u S_rule = Inr (replicate 50 CHR ''='')"
| "summary_hole_value e g f u S_total = Inr (show_nat (totalTenders g))"
| "summary_hole_value e g f u S_greeting = Inr (greeting_name u)"
| "summary_hole_value e g f u S_sections_html =
     concat_map_e (render_section e summary_section_html) g"
| "summary_hole_value e g f u S_sections_text =
     concat_map_e (render_section e summary_section_text) g"
| "summary_hole_value e g f u S_zero_text =
     Inr (if totalTenders g = 0 then
            ''No new tenders matched your alert criteria this '' @ toLowerCase f @ ''.'' @ nl @ nl
          else [])"
| "summary_hole_value e g f u S_base_url = Inr (base_url e)"

text \<open>The HTML builds the sections first and then chooses between the page for no match
  and the page with the sections.\<close>

definition generateSummaryEmailHTML :: "env \<Rightarrow> grouped \<Rightarrow> string \<Rightarrow> user \<Rightarrow> js_error + string" where
  "generateSummaryEmailHTML e g f u =
     (case summary_hole_value e g f u S_sections_html of
        Inl x \<Rightarrow> Inl x
      | Inr secs \<Rightarrow>
          if totalTenders g = 0 then render (summary_hole_value e g f u) summary_zero_page_html
          else render (summary_hole_value e g f u) summary_page_html)"

definition generateSummaryEmailText :: "env \<Rightarrow> grouped \<Rightarrow> string \<Rightarrow> user \<Rightarrow> js_error + string" where
  "generateSummaryEmailText e g f u = render (summary_hole_value e g f u) summary_page_text"

subsection \<open>Sending\<close>

text \<open>\<open>this.transporter.sendMail(mailOptions)\<close>: reading \<open>sendMail\<close> of \<open>null\<close> throws.\<close>

definition sendMail :: "env \<Rightarrow> mail_options \<Rightarrow> js_error + mail_options" where
  "sendMail e m =
     (case transporter e of
        None \<Rightarrow> Inl TypeError
      | Some accepts \<Rightarrow> if accepts m then Inr m else Inl DeliveryError)"

text \<open>\<open>sendAlertEmail\<close>: render both bodies, hand the message to the transporter. The
  result on success is the message that was sent. The method initialises the service
  first when it is not initialised; \<open>transporter e\<close> is the field after that.\<close>

definition sendAlertEmail ::
  "env \<Rightarrow> string option \<Rightarrow> string \<Rightarrow> tender list \<Rightarrow> alert \<Rightarrow> js_error + mail_options" where
  "sendAlertEmail e rcpt subject ts a =
     (case generateAlertEmailHTML e ts a of
        Inl x \<Rightarrow> Inl x
      | Inr html \<Rightarrow>
          (case generateAlertEmailText e ts a of
             Inl x \<Rightarrow> Inl x
           | Inr txt \<Rightarrow>
               (let m = \<lparr>mail_from = from_address e, mail_to = rcpt, mail_subject = subject,
                         mail_text = txt, mail_html = html\<rparr>
                in sendMail e m)))"

text \<open>The virtual \<open>effectiveEmail\<close>: \<open>customEmail || user?.email\<close>.\<close>

definition effectiveEmail :: "alert \<Rightarrow> string option" where
  "effectiveEmail a =
     (if truthy_str (customEmail (emailSettings a)) then customEmail (emailSettings a)
      else (case alert_user a of None \<Rightarrow> None | Some u \<Rightarrow> email u))"

definition sendImmediateAlert :: "env \<Rightarrow> user \<Rightarrow> tender \<Rightarrow> alert \<Rightarrow> js_error + mail_options" where
  "sendImmediateAlert e u t a =
     sendAlertEmail e
       (if truthy_str (effectiveEmail a) then effectiveEmail a else email u)
       ([CHR 0xF0, CHR 0x9F, CHR 0x9A, CHR 0xA8] @ '' New Tender Alert: '' @ show_opt (title t))
       [t] a"

text \<open>\<open>groupTendersByAlert\<close>: \<open>grouped[config._id] = {config, tenders: tenders.filter(...)}\<close>
  for each configuration in turn; assigning to a key that exists replaces its value in
  place, a new key goes last.\<close>

fun groupTendersByAlert_from ::
  "clock \<Rightarrow> tender list \<Rightarrow> alert list \<Rightarrow> grouped \<Rightarrow> js_error + grouped" where
  "groupTendersByAlert_from clk ts [] g = Inr g"
| "groupTendersByAlert_from clk ts (c # cs) g =
     (case filter_e (trigger_at clk Grouping c) ts of
        Inl x \<Rightarrow> Inl x
      | Inr ms \<Rightarrow> groupTendersByAlert_from clk ts cs (AList.update (alert_id c) (c, ms) g))"

definition groupTendersByAlert :: "clock \<Rightarrow> tender list \<Rightarrow> alert list \<Rightarrow> js_error + grouped" where
  "groupTendersByAlert clk ts cs = groupTendersByAlert_from clk ts cs []"

text \<open>\<open>sendSummaryEmail\<close>; the populated user of the group may be null, and reading its
  properties throws. The method does not initialise the service.\<close>

definition sendSummaryEmail ::
  "env \<Rightarrow> user option \<Rightarrow> string \<Rightarrow> grouped \<Rightarrow> string \<Rightarrow> js_error + mail_options" where
  "sendSummaryEmail e uo subject g f =
     (case uo of
        None \<Rightarrow> Inl TypeError
      | Some u \<Rightarrow>
          (case generateSummaryEmailHTML e g f u of
             Inl x \<Rightarrow> Inl x
           | Inr html \<Rightarrow>
               (case generateSummaryEmailText e g f u of
                  Inl x \<Rightarrow> Inl x
                | Inr txt \<Rightarrow>
                    (let m = \<lparr>mail_from = from_address e, mail_to = email u,
                              mail_subject = subject, mail_text = txt, mail_html = html\<rparr>
                     in sendMail e m))))"

text \<open>\<open>sendDailySummary\<close> and \<open>sendWeeklySummary\<close> differ in the subject and in the
  frequency word only; \<open>sendSummary\<close> is both, by the frequency. \<open>Inr None\<close> is the return
  without sending, for no record.\<close>

fun frequency_word :: "frequency \<Rightarrow> string" where
  "frequency_word Immediate = ''immediate''"
| "frequency_word Daily = ''daily''"
| "frequency_word Weekly = ''weekly''"

fun summary_subject :: "frequency \<Rightarrow> nat \<Rightarrow> string" where
  "summary_subject Weekly n =
     [CHR 0xF0, CHR 0x9F, CHR 0x93, CHR 0x88] @ '' Weekly Tender Summary - '' @ show_nat n @
     '' new matches''"
| "summary_subject f n =
     [CHR 0xF0, CHR 0x9F, CHR 0x93, CHR 0x8A] @ '' Daily Tender Summary - '' @ show_nat n @
     '' new matches''"

definition sendSummary ::
  "env \<Rightarrow> clock \<Rightarrow> frequency \<Rightarrow> user option \<Rightarrow> tender list \<Rightarrow> alert list
   \<Rightarrow> js_error + mail_options option" where
  "sendSummary e clk f uo ts cs =
     (if ts = [] then Inr None
      else
        (case groupTendersByAlert clk ts cs of
           Inl x \<Rightarrow> Inl x
         | Inr g \<Rightarrow>
             (case sendSummaryEmail e uo (summary_subject f (length ts)) g (frequency_word f) of
                Inl x \<Rightarrow> Inl x
              | Inr m \<Rightarrow> Inr (Some m))))"

section \<open>The configuration registry: the eligibility queries\<close>

text \<open>The collection is the list of its documents; a query keeps the documents that
  satisfy it.\<close>

definition findImmediateAlerts :: "alert list \<Rightarrow> alert list" where
  "findImmediateAlerts coll =
     filter (\<lambda>a. isActive a \<and> enabled (emailSettings a) \<and> freq (emailSettings a) = Immediate) coll"

definition findDailyAlerts :: "string \<Rightarrow> alert list \<Rightarrow> alert list" where
  "findDailyAlerts tm coll =
     filter (\<lambda>a. isActive a \<and> enabled (emailSettings a) \<and> freq (emailSettings a) = Daily \<and>
                 dailySummaryTime (emailSettings a) = tm) coll"

text \<open>
  \<open>const oneWeekAgo = new Date(); oneWeekAgo.setDate(oneWeekAgo.getDate() - 7)\<close>.
  \<open>getDate\<close> and \<open>setDate\<close> work on the local time of the process: \<open>setDate(d)\<close> takes the
  local time value \<open>LocalTime(t)\<close>, replaces its day of the month by \<open>d\<close>
  (\<open>MakeDate(MakeDay(year, month, d), TimeWithinDay(LocalTime(t)))\<close>, which for
  \<open>d = getDate() - 7\<close> is the local time value less 7 days of 86400000 ms) and converts the
  result back with \<open>UTC\<close>. The time zone of the process is a parameter: a \<open>zone\<close> is the
  function \<open>LocalTZA(t, isUTC)\<close> of ECMAScript, the offset of local time from UTC in
  milliseconds at \<open>t\<close>, where \<open>t\<close> is a UTC time value when \<open>isUTC\<close> and a local time value
  otherwise. The result is the same local time seven calendar days earlier, which is
  7 times 24 hours earlier only when the offset is the same at both ends.
\<close>

definition day_ms :: int where
  "day_ms = 1000 * 60 * 60 * 24"

type_synonym zone = "time \<Rightarrow> bool \<Rightarrow> int"

definition localTime :: "zone \<Rightarrow> time \<Rightarrow> time" where
  "localTime tz t = t + tz t True"

definition utcTime :: "zone \<Rightarrow> time \<Rightarrow> time" where
  "utcTime tz t = t - tz t False"

definition oneWeekAgo :: "zone \<Rightarrow> time \<Rightarrow> time" where
  "oneWeekAgo tz now = utcTime tz (localTime tz now - 7 * day_ms)"

definition findWeeklyAlerts :: "zone \<Rightarrow> time \<Rightarrow> alert list \<Rightarrow> alert list" where
  "findWeeklyAlerts tz now coll =
     filter (\<lambda>a. isActive a \<and> enabled (emailSettings a) \<and> freq (emailSettings a) = Weekly \<and>
                 ((case lastSentAt (emailSettings a) of
                     None \<Rightarrow> False
                   | Some s \<Rightarrow> s \<le> oneWeekAgo tz now) \<or>
                  lastSentAt (emailSettings a) = None)) coll"

section \<open>The processing orchestrator (services/alertProcessingService.js)\<close>

text \<open>
  The \<open>results\<close> object of a run (\<open>processed\<close>, \<open>emailsSent\<close>, \<open>errors\<close>; the early
  return for no configuration has no \<open>errors\<close> property) together with the messages the
  transporter accepted during the run, in order. Writes to the store (\<open>save()\<close>) are
  taken to succeed; a document after the run is the document as last saved.
\<close>

datatype run_error =
  AlertError oid string js_error
  | UserError oid string js_error

record run_state =
  processed :: nat
  results_emailsSent :: nat
  errors :: "run_error list option"
  outbox :: "mail_options list"

definition push_error :: "run_error \<Rightarrow> run_state \<Rightarrow> run_state" where
  "push_error x st =
     st\<lparr>errors := Some ((case errors st of None \<Rightarrow> [] | Some es \<Rightarrow> es) @ [x])\<rparr>"

definition results_init :: run_state where
  "results_init = \<lparr>processed = 0, results_emailsSent = 0, errors = Some [], outbox = []\<rparr>"

definition results_none :: run_state where
  "results_none = \<lparr>processed = 0, results_emailsSent = 0, errors = None, outbox = []\<rparr>"

text \<open>The methods \<open>updateStats\<close> and \<open>incrementEmailSent\<close> of a configuration.\<close>

definition updateStats :: "time \<Rightarrow> alert \<Rightarrow> tender \<Rightarrow> alert" where
  "updateStats now a t =
     a\<lparr>alert_stats := (alert_stats a)
          \<lparr>totalMatches := totalMatches (alert_stats a) + 1,
           lastMatchedTender := Some (tender_id t),
           lastMatchedAt := Some now\<rparr>\<rparr>"

definition incrementEmailSent :: "time \<Rightarrow> alert \<Rightarrow> alert" where
  "incrementEmailSent now a =
     a\<lparr>alert_stats := (alert_stats a)\<lparr>emailsSent := emailsSent (alert_stats a) + 1\<rparr>,
       emailSettings := (emailSettings a)\<lparr>lastSentAt := Some now\<rparr>\<rparr>"

subsection \<open>The immediate run: \<open>processTenderAlerts\<close>\<close>

text \<open>\<open>alert.user.subscription?.features?.emailAlerts\<close> is truthy.\<close>

definition emailAlerts_enabled :: "user \<Rightarrow> bool" where
  "emailAlerts_enabled u =
     (case user_subscription u of
        None \<Rightarrow> False
      | Some s \<Rightarrow> (case sub_features s of None \<Rightarrow> False | Some f \<Rightarrow> emailAlerts f = Some True))"

text \<open>The guard \<open>!alert.user || !alert.user.subscription?.features?.emailAlerts\<close>.\<close>

definition skips :: "alert \<Rightarrow> bool" where
  "skips a = (case alert_user a of None \<Rightarrow> True | Some u \<Rightarrow> \<not> emailAlerts_enabled u)"

text \<open>One iteration of \<open>for (const alert of immediateAlerts)\<close>: the document after the
  iteration and the state of the run.\<close>

definition process_alert ::
  "env \<Rightarrow> time \<Rightarrow> tender \<Rightarrow> alert \<Rightarrow> run_state \<Rightarrow> alert \<times> run_state" where
  "process_alert e now t a st =
     (case alert_user a of
        None \<Rightarrow> (a, st)
      | Some u \<Rightarrow>
          if \<not> emailAlerts_enabled u then (a, st)
          else
            (case shouldTriggerForTender now a t of
               Inl x \<Rightarrow> (a, push_error (AlertError (alert_id a) ''processing'' x) st)
             | Inr b \<Rightarrow>
                 if \<not> b then (a, st)
                 else
                   (let a1 = updateStats now a t in
                    if enabled (emailSettings a1) \<and> freq (emailSettings a1) = Immediate then
                      (case sendImmediateAlert e u t a1 of
                         Inr m \<Rightarrow>
                           (incrementEmailSent now a1,
                            st\<lparr>processed := processed st + 1,
                               results_emailsSent := results_emailsSent st + 1,
                               outbox := outbox st @ [m]\<rparr>)
                       | Inl x \<Rightarrow>
                           (a1,
                            (push_error (AlertError (alert_id a) ''email'' x) st)
                              \<lparr>processed := processed st + 1\<rparr>))
                    else (a1, st\<lparr>processed := processed st + 1\<rparr>))))"

fun process_alerts ::
  "env \<Rightarrow> time \<Rightarrow> tender \<Rightarrow> alert list \<Rightarrow> run_state \<Rightarrow> alert list \<times> run_state" where
  "process_alerts e now t [] st = ([], st)"
| "process_alerts e now t (a # as) st =
     (case process_alert e now t a st of
        (a', st1) \<Rightarrow>
          (case process_alerts e now t as st1 of (as', st2) \<Rightarrow> (a' # as', st2)))"

definition processTenderAlerts ::
  "env \<Rightarrow> time \<Rightarrow> tender \<Rightarrow> alert list \<Rightarrow> alert list \<times> run_state" where
  "processTenderAlerts e now t coll =
     (let immediateAlerts = findImmediateAlerts coll in
      if immediateAlerts = [] then ([], results_none)
      else process_alerts e now t immediateAlerts results_init)"

subsection \<open>The daily and weekly runs: \<open>processDailySummaries\<close>, \<open>processWeeklySummaries\<close>\<close>

text \<open>\<open>groupAlertsByUser\<close>: a Map from \<open>alert.user._id.toString()\<close> to the user's
  configurations, in insertion order.\<close>

fun map_push :: "oid \<Rightarrow> alert \<Rightarrow> (oid \<times> alert list) list \<Rightarrow> (oid \<times> alert list) list" where
  "map_push k a [] = [(k, [a])]"
| "map_push k a ((k', as) # m) =
     (if k' = k then (k', as @ [a]) # m else (k', as) # map_push k a m)"

fun groupAlertsByUser_from ::
  "alert list \<Rightarrow> (oid \<times> alert list) list \<Rightarrow> js_error + (oid \<times> alert list) list" where
  "groupAlertsByUser_from [] m = Inr m"
| "groupAlertsByUser_from (a # as) m =
     (case alert_user a of
        None \<Rightarrow> Inl TypeError
      | Some u \<Rightarrow> groupAlertsByUser_from as (map_push (user_id u) a m))"

definition groupAlertsByUser :: "alert list \<Rightarrow> js_error + (oid \<times> alert list) list" where
  "groupAlertsByUser alerts = groupAlertsByUser_from alerts []"

text \<open>\<open>removeDuplicateTenders\<close>: keep the first record of each id; \<open>seen\<close> is the set of
  ids met so far.\<close>

fun removeDuplicateTenders_from :: "oid list \<Rightarrow> tender list \<Rightarrow> tender list" where
  "removeDuplicateTenders_from seen [] = []"
| "removeDuplicateTenders_from seen (t # ts) =
     (if tender_id t \<in> set seen then removeDuplicateTenders_from seen ts
      else t # removeDuplicateTenders_from (tender_id t # seen) ts)"

definition removeDuplicateTenders :: "tender list \<Rightarrow> tender list" where
  "removeDuplicateTenders ts = removeDuplicateTenders_from [] ts"

text \<open>The first loop over the user's configurations: \<open>matchingTenders.push(...matches)\<close>,
  each call of \<open>shouldTriggerForTender\<close> at its own reading of the clock.\<close>

fun matchingTenders :: "clock \<Rightarrow> tender list \<Rightarrow> alert list \<Rightarrow> js_error + tender list" where
  "matchingTenders clk ts [] = Inr []"
| "matchingTenders clk ts (a # as) =
     (case filter_e (trigger_at clk Matching a) ts of
        Inl x \<Rightarrow> Inl x
      | Inr ms \<Rightarrow>
          (case matchingTenders clk ts as of Inl x \<Rightarrow> Inl x | Inr r \<Rightarrow> Inr (ms @ r)))"

definition uniqueTenders :: "clock \<Rightarrow> tender list \<Rightarrow> alert list \<Rightarrow> js_error + tender list" where
  "uniqueTenders clk ts as =
     (case matchingTenders clk ts as of
        Inl x \<Rightarrow> Inl x
      | Inr ms \<Rightarrow> Inr (removeDuplicateTenders ms))"

text \<open>The second loop, after the send: for each configuration, \<open>updateStats\<close> for each of
  its matches among the unique records and then \<open>incrementEmailSent\<close>. A throw leaves the
  documents saved so far as they are.\<close>

definition update_alert :: "clock \<Rightarrow> tender list \<Rightarrow> alert \<Rightarrow> alert" where
  "update_alert clk alertMatches a =
     (if alertMatches \<noteq> [] then
        incrementEmailSent (clk Sent (alert_id a) [])
          (foldl (\<lambda>d t. updateStats (clk Recording (alert_id a) (tender_id t)) d t) a alertMatches)
      else a)"

fun update_alerts :: "clock \<Rightarrow> tender list \<Rightarrow> alert list \<Rightarrow> alert list \<times> js_error option" where
  "update_alerts clk uniq [] = ([], None)"
| "update_alerts clk uniq (a # as) =
     (case filter_e (trigger_at clk Counting a) uniq of
        Inl x \<Rightarrow> (a # as, Some x)
      | Inr ms \<Rightarrow>
          (case update_alerts clk uniq as of
             (as', r) \<Rightarrow> (update_alert clk ms a # as', r)))"

fun summary_type :: "frequency \<Rightarrow> string" where
  "summary_type Weekly = ''weekly_summary''"
| "summary_type f = ''daily_summary''"

text \<open>One iteration of \<open>for (const [userId, alerts] of userAlerts.entries())\<close>: the user's
  documents after the iteration and the state of the run. The three rounds of evaluation
  (the loop that collects the matches, the regrouping inside the send, the loop that
  updates the statistics) read the clock each in its own calls.\<close>

definition process_user ::
  "env \<Rightarrow> clock \<Rightarrow> frequency \<Rightarrow> tender list \<Rightarrow> oid \<times> alert list \<Rightarrow> run_state
   \<Rightarrow> (oid \<times> alert list) \<times> run_state" where
  "process_user e clk f recent grp st =
     (case grp of (userId, alerts) \<Rightarrow>
        (case alerts of
           [] \<Rightarrow> (grp, push_error (UserError userId (summary_type f) TypeError) st)
         | a0 # rest \<Rightarrow>
             (case uniqueTenders clk recent alerts of
                Inl x \<Rightarrow> (grp, push_error (UserError userId (summary_type f) x) st)
              | Inr uniq \<Rightarrow>
                  if uniq \<noteq> [] then
                    (case sendSummary e clk f (alert_user a0) uniq alerts of
                       Inl x \<Rightarrow> (grp, push_error (UserError userId (summary_type f) x) st)
                     | Inr sent \<Rightarrow>
                         (let st1 = st\<lparr>outbox := outbox st @ (case sent of None \<Rightarrow> [] | Some m \<Rightarrow> [m])\<rparr>
                          in case update_alerts clk uniq alerts of
                               (alerts', Some x) \<Rightarrow>
                                 ((userId, alerts'),
                                  push_error (UserError userId (summary_type f) x) st1)
                             | (alerts', None) \<Rightarrow>
                                 ((userId, alerts'),
                                  st1\<lparr>processed := processed st1 + 1,
                                      results_emailsSent := results_emailsSent st1 + 1\<rparr>)))
                  else (grp, st\<lparr>processed := processed st + 1\<rparr>))))"

fun process_users ::
  "env \<Rightarrow> clock \<Rightarrow> frequency \<Rightarrow> tender list \<Rightarrow> (oid \<times> alert list) list \<Rightarrow> run_state
   \<Rightarrow> (oid \<times> alert list) list \<times> run_state" where
  "process_users e clk f recent [] st = ([], st)"
| "process_users e clk f recent (g # gs) st =
     (case process_user e clk f recent g st of
        (g', st1) \<Rightarrow>
          (case process_users e clk f recent gs st1 of (gs', st2) \<Rightarrow> (g' # gs', st2)))"

text \<open>The body the two runs share, from the fetched configurations \<open>alerts\<close> and the
  fetched records \<open>recent\<close> (the result of \<open>getRecentTenders\<close>). A throw of
  \<open>groupAlertsByUser\<close> leaves the run. The result holds the fetched documents as they
  are after the run (user by user, in the order of the Map, when the loop ran) and the
  state of the run.\<close>

definition processSummaries ::
  "env \<Rightarrow> clock \<Rightarrow> frequency \<Rightarrow> alert list \<Rightarrow> tender list
   \<Rightarrow> js_error + alert list \<times> run_state" where
  "processSummaries e clk f alerts recent =
     (if alerts = [] then Inr (alerts, results_none)
      else if recent = [] then Inr (alerts, results_init)
      else
        (case groupAlertsByUser alerts of
           Inl x \<Rightarrow> Inl x
         | Inr groups \<Rightarrow>
             (case process_users e clk f recent groups results_init of
                (groups', st) \<Rightarrow> Inr (concat (map snd groups'), st))))"

definition processDailySummaries ::
  "env \<Rightarrow> clock \<Rightarrow> string \<Rightarrow> alert list \<Rightarrow> tender list
   \<Rightarrow> js_error + alert list \<times> run_state" where
  "processDailySummaries e clk tm coll recent =
     processSummaries e clk Daily (findDailyAlerts tm coll) recent"

definition processWeeklySummaries ::
  "env \<Rightarrow> zone \<Rightarrow> time \<Rightarrow> clock \<Rightarrow> alert list \<Rightarrow> tender list
   \<Rightarrow> js_error + alert list \<times> run_state" where
  "processWeeklySummaries e tz now clk coll recent =
     processSummaries e clk Weekly (findWeeklyAlerts tz now coll) recent"

subsection \<open>The processing queue: \<open>queueTenderForProcessing\<close> and \<open>processQueue\<close>\<close>

text \<open>
  The service runs on one event loop: code runs without interruption from one \<open>await\<close>
  to the next. The state is the two fields of the service and \<open>draining\<close>, the number of
  \<open>processQueue\<close> activations that have passed the guard and have not reached their
  \<open>finally\<close>. The events are the uninterrupted pieces of code:
  \<^item> \<open>Call_queueTender t\<close>: \<open>queueTenderForProcessing(t)\<close>, up to the first \<open>await\<close> of
    the drain it may start;
  \<^item> \<open>Call_processQueue\<close>: a direct call of \<open>processQueue()\<close>, likewise;
  \<^item> \<open>Resume_ok\<close>: a suspended drain goes on after \<open>processTenderAlerts\<close> and the
    delay: it takes the next record or, the queue being empty, ends;
  \<^item> \<open>Resume_throw\<close>: \<open>processTenderAlerts\<close> threw in a suspended drain, which ends.
\<close>

record queue_state =
  processingQueue :: "tender list"
  isProcessing :: bool
  draining :: nat

datatype queue_event = Call_queueTender tender | Call_processQueue | Resume_ok | Resume_throw

text \<open>\<open>processQueue()\<close> from its call to its first suspension.\<close>

definition processQueue_enter :: "queue_state \<Rightarrow> queue_state" where
  "processQueue_enter q =
     (if isProcessing q \<or> processingQueue q = [] then q
      else q\<lparr>isProcessing := True, draining := draining q + 1,
             processingQueue := tl (processingQueue q)\<rparr>)"

fun queue_step :: "queue_state \<Rightarrow> queue_event \<Rightarrow> queue_state" where
  "queue_step q (Call_queueTender t) =
     (let q1 = q\<lparr>processingQueue := processingQueue q @ [t]\<rparr>
      in if \<not> isProcessing q1 then processQueue_enter q1 else q1)"
| "queue_step q Call_processQueue = processQueue_enter q"
| "queue_step q Resume_ok =
     (if draining q = 0 then q
      else if processingQueue q \<noteq> [] then q\<lparr>processingQueue := tl (processingQueue q)\<rparr>
      else q\<lparr>isProcessing := False, draining := draining q - 1\<rparr>)"
| "queue_step q Resume_throw =
     (if draining q = 0 then q
      else q\<lparr>isProcessing := False, draining := draining q - 1\<rparr>)"

definition queue_init :: queue_state where
  "queue_init = \<lparr>processingQueue = [], isProcessing = False, draining = 0\<rparr>"

definition queue_run :: "queue_event list \<Rightarrow> queue_state" where
  "queue_run evs = foldl queue_step queue_init evs"

subsection \<open>The named jobs of the scheduler (services/schedulerService.js)\<close>

text \<open>
  A named job is started by its cron callback and by its manual trigger
  (\<open>triggerDailySummary\<close>, \<open>triggerWeeklySummary\<close>, \<open>triggerCleanup\<close>); both call the run at
  once, neither reads or sets a flag. \<open>in_flight\<close> counts, per job name, the executions
  started and not yet finished.
\<close>

datatype job_event = Trigger string | Finish string

fun job_step :: "(string \<Rightarrow> nat) \<Rightarrow> job_event \<Rightarrow> (string \<Rightarrow> nat)" where
  "job_step in_flight (Trigger n) = in_flight(n := in_flight n + 1)"
| "job_step in_flight (Finish n) = in_flight(n := in_flight n - 1)"

definition jobs_run :: "job_event list \<Rightarrow> (string \<Rightarrow> nat)" where
  "jobs_run evs = foldl job_step (\<lambda>n. 0) evs"

section \<open>Reference notions and example data\<close>

text \<open>
  \<open>bare_tender\<close> is a record with an id and a title and nothing else; \<open>default_alert\<close>
  is a configuration holding the defaults of the schema (active, no filter, email enabled,
  frequency immediate, time 09:00, counters 0) and no populated user.
\<close>

definition bare_tender :: "oid \<Rightarrow> string \<Rightarrow> tender" where
  "bare_tender i ti =
     \<lparr>tender_id = i, title = Some ti, description = None, fullTextMarkdown = None,
      category = None, organization = None, location = None, dates = None,
      financials = None, status = None, priority = None\<rparr>"

definition default_alert :: "oid \<Rightarrow> alert" where
  "default_alert i =
     \<lparr>alert_id = i, alert_user = None, alert_name = ''alert'', isActive = True,
      alert_keywords = [], categories = [],
      locations = \<lparr>provinces = [], districts = [], cities = []\<rparr>,
      organizationTypes = [],
      alert_estimatedValue = \<lparr>range_min = None, range_max = None, range_currency = ''LKR''\<rparr>,
      emailSettings = \<lparr>enabled = True, freq = Immediate, customEmail = None,
                       lastSentAt = None, dailySummaryTime = ''09:00''\<rparr>,
      alert_stats = \<lparr>totalMatches = 0, emailsSent = 0, lastMatchedTender = None,
                     lastMatchedAt = None\<rparr>,
      advancedFilters = \<lparr>excludeKeywords = [], minDaysUntilClosing = None,
                         maxDaysUntilClosing = None, includedStatuses = [],
                         includedPriorities = []\<rparr>\<rparr>"

text \<open>
  \<open>example_env ok\<close> is an environment with no variable set, fixed formatter outputs and a
  transporter that accepts every message (\<open>ok\<close>) or rejects every message;
  \<open>full_tender\<close> is a record with every field the bodies read; \<open>example_user\<close> is a
  populated user with the \<open>emailAlerts\<close> flag given; \<open>owned_alert\<close> is the default
  configuration of a user, with a name and a frequency.
\<close>

definition example_env :: "bool \<Rightarrow> env" where
  "example_env ok =
     \<lparr>frontend_url = None, gmail_user_email = None, from_email = None,
      fmt_date_long = (\<lambda>d. ''January 15, 2026''), fmt_date = (\<lambda>d. ''1/15/2026''),
      fmt_number = (\<lambda>v. ''4,000''), transporter = Some (\<lambda>m. ok)\<rparr>"

definition full_tender :: "oid \<Rightarrow> string \<Rightarrow> string \<Rightarrow> tender" where
  "full_tender i ti d =
     \<lparr>tender_id = i, title = Some ti, description = Some d, fullTextMarkdown = None,
      category = Some ''Construction'',
      organization = Some \<lparr>org_name = Some ''RDA'', org_type = Some ''government''\<rparr>,
      location = Some \<lparr>province = Some ''Western Province'', district = Some ''Colombo'',
                       city = None\<rparr>,
      dates = Some \<lparr>published = Some 0, closing = Some 1\<rparr>,
      financials = None, status = Some ''published'', priority = None\<rparr>"

definition example_user :: "oid \<Rightarrow> bool \<Rightarrow> user" where
  "example_user i flag =
     \<lparr>user_id = i, email = Some ''owner@example.com'', firstName = None, user_name = None,
      user_subscription = Some \<lparr>sub_features = Some \<lparr>emailAlerts = Some flag\<rparr>\<rparr>\<rparr>"

definition owned_alert :: "oid \<Rightarrow> string \<Rightarrow> frequency \<Rightarrow> user \<Rightarrow> alert" where
  "owned_alert i n f u =
     (default_alert i)
       \<lparr>alert_user := Some u, alert_name := n,
        emailSettings := \<lparr>enabled = True, freq = f, customEmail = None,
                           lastSentAt = None, dailySummaryTime = ''09:00''\<rparr>\<rparr>"

definition weekly_alert :: "oid \<Rightarrow> time option \<Rightarrow> alert" where
  "weekly_alert i sent =
     (default_alert i)
       \<lparr>emailSettings := \<lparr>enabled = True, freq = Weekly, customEmail = None,
                          lastSentAt = sent, dailySummaryTime = ''09:00''\<rparr>\<rparr>"

text \<open>A record about road works; configurations of the user \<open>u1\<close> without any filter,
  for the immediate and the daily run; a daily configuration of the user \<open>u2\<close> with the
  keyword "bridge", which the record does not contain.\<close>

definition road_tender :: tender where
  "road_tender = full_tender ''t1'' ''Road works'' ''Paving of the B12 road''"

definition roads_immediate :: alert where
  "roads_immediate = owned_alert ''a1'' ''Roads'' Immediate (example_user ''u1'' True)"

definition roads_daily :: alert where
  "roads_daily = owned_alert ''d1'' ''Roads'' Daily (example_user ''u1'' True)"

definition everything_daily :: alert where
  "everything_daily = owned_alert ''d2'' ''Everything'' Daily (example_user ''u1'' True)"

definition bridges_daily :: alert where
  "bridges_daily =
     (owned_alert ''d3'' ''Bridges'' Daily (example_user ''u2'' True))
       \<lparr>alert_keywords := [\<lparr>kw_term = ''bridge'', matchType = Contains\<rparr>]\<rparr>"

text \<open>The holes of a template, in order.\<close>

fun holes :: "'h part list \<Rightarrow> 'h list" where
  "holes [] = []"
| "holes (Lit s # ps) = holes ps"
| "holes (Hole h # ps) = h # holes ps"

text \<open>The owner of a configuration is the user of the given id.\<close>

definition owner_is :: "oid \<Rightarrow> alert \<Rightarrow> bool" where
  "owner_is uid a = (case alert_user a of None \<Rightarrow> False | Some u \<Rightarrow> user_id u = uid)"


text \<open>
  The reference notion of a whole-word occurrence that the exact mode is compared with:
  \<open>w\<close> occurs in \<open>txt\<close> with, on each side, a space character (U+0020) or the end of
  the text.
\<close>

definition space_bounded :: "string \<Rightarrow> string \<Rightarrow> bool" where
  "space_bounded txt w =
     (\<exists>p r. txt = p @ w @ r \<and> (p = [] \<or> last p = CHR '' '') \<and> (r = [] \<or> hd r = CHR '' ''))"

text \<open>The configuration matches the record: the evaluator returns true.\<close>

abbreviation matches :: "time \<Rightarrow> alert \<Rightarrow> tender \<Rightarrow> bool" where
  "matches now a t \<equiv> shouldTriggerForTender now a t = Inr True"



text \<open>The clock that reads the same value in every call; the zone with a fixed offset,
  and the zone whose offset changes at an instant (a daylight-saving change).\<close>

definition steady :: "time \<Rightarrow> clock" where
  "steady n = (\<lambda>ph c r. n)"

definition fixed_zone :: "int \<Rightarrow> zone" where
  "fixed_zone off = (\<lambda>t isUTC. off)"

definition switching_zone :: "time \<Rightarrow> int \<Rightarrow> int \<Rightarrow> zone" where
  "switching_zone change before after = (\<lambda>t isUTC. if t < change then before else after)"

text \<open>A group of the Map whose deduplicated match set is empty.\<close>

definition no_match :: "clock \<Rightarrow> tender list \<Rightarrow> oid \<times> alert list \<Rightarrow> bool" where
  "no_match clk recent g = (snd g \<noteq> [] \<and> uniqueTenders clk recent (snd g) = Inr [])"


text \<open>
  The text bodies written out, line by line, as a reader sees them; the rendered templates
  are compared with these. The lines of one record in the text of an immediate alert
  (\<open>i\<close> is the position of the record, from 0) and in the text of a summary:
\<close>

definition value_lines :: "env \<Rightarrow> tender \<Rightarrow> string" where
  "value_lines e t =
     (case financials t of
        None \<Rightarrow> []
      | Some f \<Rightarrow>
          (case estimatedValue f of
             None \<Rightarrow> []
           | Some ev \<Rightarrow>
               ''   Estimated Value: '' @ show_opt (currency ev) @ '' '' @
               fmt_number e (the (amount ev)) @ nl))"

definition alert_text_item :: "env \<Rightarrow> nat \<Rightarrow> tender \<Rightarrow> string" where
  "alert_text_item e i t =
     show_nat (i + 1) @ ''. '' @ show_opt (title t) @ nl @
     ''   Category: '' @ show_opt (category t) @ nl @
     ''   Organization: '' @ show_opt (org_name (the (organization t))) @ '' ('' @
       show_opt (org_type (the (organization t))) @ '')'' @ nl @
     ''   Location: '' @ show_opt (district (the (location t))) @ '', '' @
       show_opt (province (the (location t))) @ nl @
     ''   Closing Date: '' @ fmt_date e (closing (the (dates t))) @ nl @
     value_lines e t @
     ''   Link: '' @ base_url e @ ''/tenders/'' @ tender_id t @ nl @ nl"

definition summary_text_item :: "env \<Rightarrow> nat \<Rightarrow> tender \<Rightarrow> string" where
  "summary_text_item e i t =
     show_nat (i + 1) @ ''. '' @ show_opt (title t) @ nl @
     ''   '' @ show_opt (org_name (the (organization t))) @ nl @
     ''   '' @ show_opt (district (the (location t))) @ '', '' @
       show_opt (province (the (location t))) @ nl @
     ''   Closes: '' @ fmt_date e (closing (the (dates t))) @ nl @
     ''   Link: '' @ base_url e @ ''/tenders/'' @ tender_id t @ nl @ nl"

definition items_text :: "(nat \<Rightarrow> tender \<Rightarrow> string) \<Rightarrow> tender list \<Rightarrow> string" where
  "items_text item ts = concat (map (\<lambda>(i, t). item i t) (enumerate 0 ts))"

text \<open>The sentence with the match count, and the whole text of an immediate alert.\<close>

definition alert_count_sentence :: "nat \<Rightarrow> string" where
  "alert_count_sentence n =
     ''We found '' @ show_nat n @ '' new tender'' @ (if n > 1 then ''s'' else []) @
     '' that match'' @ (if n = 1 then ''es'' else []) @ '' your criteria:'' @ nl"

definition text_footer :: "env \<Rightarrow> string" where
  "text_footer e =
     ''Manage your alerts: '' @ base_url e @ ''/alerts'' @ nl @
     ''Unsubscribe: '' @ base_url e @ ''/unsubscribe'' @ nl"

definition alert_text_body :: "env \<Rightarrow> tender list \<Rightarrow> alert \<Rightarrow> string" where
  "alert_text_body e ts a =
     (''TENDER ALERT: '' @ alert_name a @ nl @ replicate 50 CHR ''='' @ nl @ nl) @
     alert_count_sentence (length ts) @ nl @
     items_text (alert_text_item e) ts @
     text_footer e"

text \<open>The header line of a section of a summary, a section, and the whole text of a
  summary.\<close>

definition section_header :: "alert \<Rightarrow> nat \<Rightarrow> string" where
  "section_header c n = alert_name c @ '' ('' @ show_nat n @ '' matches)'' @ nl"

definition summary_text_section :: "env \<Rightarrow> oid \<times> alert \<times> tender list \<Rightarrow> string" where
  "summary_text_section e entry =
     (case entry of (k, c, rs) \<Rightarrow>
        if rs = [] then []
        else section_header c (length rs) @ replicate 30 CHR ''-'' @ nl @
             items_text (summary_text_item e) rs)"

definition summary_text_body :: "env \<Rightarrow> grouped \<Rightarrow> string \<Rightarrow> user \<Rightarrow> string" where
  "summary_text_body e g f u =
     (toUpperCase f @ '' TENDER SUMMARY'' @ nl @ replicate 50 CHR ''='' @ nl @ nl @
      ''Hello '' @ greeting_name u @ ''!'' @ nl @ nl) @
     concat (map (summary_text_section e) g) @
     (if totalTenders g = 0 then
        ''No new tenders matched your alert criteria this '' @ toLowerCase f @ ''.'' @ nl @ nl
      else []) @
     text_footer e"

text \<open>
  The facts that the templates insert. A hole stands for a fact; the HTML and the text
  may show the same fact in different formats (the closing date, the value estimate, the
  letter case of the frequency word, the records as cards, rows or numbered items).
\<close>

datatype fact =
  Running_number | Title | Category | Organization_name | Organization_type | Description
  | District | Province | Closing_date | Value_estimate | Currency | Amount | Base_url
  | Record_id | Configuration_name | Match_count | Plural_ending | Rule | Records
  | Frequency | Total_count | Greeting | Sections | No_match_line

fun value_fact :: "value_hole \<Rightarrow> fact" where
  "value_fact V_currency = Currency"
| "value_fact V_amount = Amount"

fun tender_fact :: "tender_hole \<Rightarrow> fact" where
  "tender_fact H_index = Running_number"
| "tender_fact H_title = Title"
| "tender_fact H_category = Category"
| "tender_fact H_org_type = Organization_type"
| "tender_fact H_org_name = Organization_name"
| "tender_fact H_description_excerpt = Description"
| "tender_fact H_description_ellipsis = Description"
| "tender_fact H_district = District"
| "tender_fact H_province = Province"
| "tender_fact H_closing_long = Closing_date"
| "tender_fact H_closing = Closing_date"
| "tender_fact H_value_html = Value_estimate"
| "tender_fact H_value_text = Value_estimate"
| "tender_fact H_base_url = Base_url"
| "tender_fact H_tender_id = Record_id"

fun alert_fact :: "alert_hole \<Rightarrow> fact" where
  "alert_fact A_name = Configuration_name"
| "alert_fact A_rule = Rule"
| "alert_fact A_count = Match_count"
| "alert_fact A_plural_s = Plural_ending"
| "alert_fact A_plural_es = Plural_ending"
| "alert_fact A_cards = Records"
| "alert_fact A_items = Records"
| "alert_fact A_base_url = Base_url"

fun section_fact :: "section_hole \<Rightarrow> fact" where
  "section_fact Sec_name = Configuration_name"
| "section_fact Sec_count = Match_count"
| "section_fact Sec_rule = Rule"
| "section_fact Sec_rows = Records"
| "section_fact Sec_items = Records"

fun summary_fact :: "summary_hole \<Rightarrow> fact" where
  "summary_fact S_frequency = Frequency"
| "summary_fact S_frequency_upper = Frequency"
| "summary_fact S_frequency_lower = Frequency"
| "summary_fact S_frequency_capitalised = Frequency"
| "summary_fact S_rule = Rule"
| "summary_fact S_total = Total_count"
| "summary_fact S_greeting = Greeting"
| "summary_fact S_sections_html = Sections"
| "summary_fact S_sections_text = Sections"
| "summary_fact S_zero_text = No_match_line"
| "summary_fact S_base_url = Base_url"

definition facts_of :: "('h \<Rightarrow> fact) \<Rightarrow> 'h part list \<Rightarrow> fact set" where
  "facts_of fact_of tpl = fact_of ` set (holes tpl)"

text \<open>The invariant of the processing queue: at most one drain is in flight, and the flag
  \<open>isProcessing\<close> is set exactly while one is.\<close>

definition queue_inv :: "queue_state \<Rightarrow> bool" where
  "queue_inv q = (draining q \<le> 1 \<and> (isProcessing q \<longleftrightarrow> draining q = 1))"

section \<open>Strings\<close>

lemma startsWith_iff: "startsWith s t \<longleftrightarrow> (\<exists>r. s = t @ r)"
  by (induction s t rule: startsWith.induct) auto

lemma endsWith_iff: "endsWith s t \<longleftrightarrow> (\<exists>p. s = p @ t)"
proof -
  have "endsWith s t \<longleftrightarrow> (\<exists>r. rev s = rev t @ r)"
    by (simp add: endsWith_def startsWith_iff)
  also have "\<dots> \<longleftrightarrow> (\<exists>p. s = p @ t)"
  proof
    assume "\<exists>r. rev s = rev t @ r"
    then obtain r where "rev s = rev t @ r" ..
    then have "s = rev r @ t" by (metis rev_append rev_rev_ident)
    then show "\<exists>p. s = p @ t" ..
  next
    assume "\<exists>p. s = p @ t"
    then obtain p where "s = p @ t" ..
    then have "rev s = rev t @ rev p" by simp
    then show "\<exists>r. rev s = rev t @ r" ..
  qed
  finally show ?thesis .
qed

lemma str_includes_iff: "str_includes s t \<longleftrightarrow> (\<exists>p r. s = p @ t @ r)"
proof (induction s)
  case Nil
  then show ?case by auto
next
  case (Cons c s)
  show ?case
  proof
    assume "str_includes (c # s) t"
    then consider "startsWith (c # s) t" | "str_includes s t" by auto
    then show "\<exists>p r. c # s = p @ t @ r"
    proof cases
      case 1
      then obtain r where "c # s = t @ r" by (auto simp: startsWith_iff)
      then have "c # s = [] @ t @ r" by simp
      then show ?thesis by blast
    next
      case 2
      then obtain p r where "s = p @ t @ r" using Cons.IH by blast
      then have "c # s = (c # p) @ t @ r" by simp
      then show ?thesis by blast
    qed
  next
    assume "\<exists>p r. c # s = p @ t @ r"
    then obtain p r where e: "c # s = p @ t @ r" by blast
    show "str_includes (c # s) t"
    proof (cases p)
      case Nil
      then have "startsWith (c # s) t" using e by (simp add: startsWith_iff)
      then show ?thesis by simp
    next
      case (Cons d p')
      then have "s = p' @ t @ r" using e by simp
      then show ?thesis using Cons.IH by auto
    qed
  qed
qed

lemmas char_eval = lower_char_def upper_char_def char_of_def bit_Suc_0_iff

lemma exact_iff_space_bounded: "clause_matches Exact txt w \<longleftrightarrow> space_bounded txt w"
proof
  assume "clause_matches Exact txt w"
  then consider
    (mid) p r where "txt = p @ ('' '' @ w @ '' '') @ r"
    | (front) r where "txt = (w @ '' '') @ r"
    | (rear) p where "txt = p @ ('' '' @ w)"
    | (whole) "txt = w"
    by (auto simp: str_includes_iff startsWith_iff endsWith_iff)
  then show "space_bounded txt w"
  proof cases
    case mid
    then have "txt = (p @ '' '') @ w @ ('' '' @ r)" by simp
    then show ?thesis unfolding space_bounded_def
      by (intro exI[of _ "p @ '' ''"] exI[of _ "'' '' @ r"]) simp
  next
    case front
    then have "txt = [] @ w @ ('' '' @ r)" by simp
    then show ?thesis unfolding space_bounded_def
      by (intro exI[of _ "[]"] exI[of _ "'' '' @ r"]) simp
  next
    case rear
    then have "txt = (p @ '' '') @ w @ []" by simp
    then show ?thesis unfolding space_bounded_def
      by (intro exI[of _ "p @ '' ''"] exI[of _ "[]"]) simp
  next
    case whole
    then show ?thesis unfolding space_bounded_def
      by (intro exI[of _ "[]"] exI[of _ "[]"]) simp
  qed
next
  assume "space_bounded txt w"
  then obtain p r where e: "txt = p @ w @ r"
    and hp: "p = [] \<or> last p = CHR '' ''" and hr: "r = [] \<or> hd r = CHR '' ''"
    unfolding space_bounded_def by blast
  have p': "p = [] \<or> (\<exists>p'. p = p' @ '' '')"
    using hp by (cases p rule: rev_cases) auto
  have r': "r = [] \<or> (\<exists>r'. r = '' '' @ r')"
    using hr by (cases r) auto
  from p' r' show "clause_matches Exact txt w"
  proof (elim disjE exE)
    assume "p = []" "r = []"
    then show ?thesis using e by simp
  next
    fix r' assume "p = []" "r = '' '' @ r'"
    then have "txt = (w @ '' '') @ r'" using e by simp
    then have "startsWith txt (w @ '' '')" unfolding startsWith_iff by blast
    then show ?thesis by simp
  next
    fix p' assume "p = p' @ '' ''" "r = []"
    then have "txt = p' @ ('' '' @ w)" using e by simp
    then have "endsWith txt ('' '' @ w)" unfolding endsWith_iff by blast
    then show ?thesis by simp
  next
    fix p' r' assume "p = p' @ '' ''" "r = '' '' @ r'"
    then have "txt = p' @ ('' '' @ w @ '' '') @ r'" using e by simp
    then have "str_includes txt ('' '' @ w @ '' '')" unfolding str_includes_iff by blast
    then show ?thesis by simp
  qed
qed

section \<open>The predicate evaluator\<close>

lemma and_then_Inr: "and_then (Inr b) k = (if b then k else Inr False)"
  by (simp add: and_then_def)

lemma and_then_total:
  assumes "\<exists>b. r = Inr b" and "\<exists>b. k = Inr b"
  shows "\<exists>b. and_then r k = Inr b"
  using assms by (auto simp: and_then_def)

lemma and_then_True: "and_then r k = Inr True \<Longrightarrow> r = Inr True \<and> k = Inr True"
  by (auto simp: and_then_def split: sum.splits if_splits)

lemma some_e_total:
  assumes "\<And>x. \<exists>b. f x = Inr b"
  shows "\<exists>b. some_e f xs = Inr b"
proof (induction xs)
  case Nil
  show ?case by auto
next
  case (Cons x xs)
  obtain b where "f x = Inr b" using assms by blast
  then show ?case using Cons.IH by (cases b) auto
qed

lemma check_keywords_total:
  assumes "alert_keywords a \<noteq> [] \<longrightarrow> title t \<noteq> None"
  shows "\<exists>b. check_keywords a t = Inr b"
proof (cases "alert_keywords a = []")
  case True
  then show ?thesis by (auto simp: check_keywords_def)
next
  case False
  then obtain ti where "title t = Some ti" using assms by auto
  then have "\<And>k. \<exists>b. keyword_matches t k = Inr b"
    by (simp add: keyword_matches_def textToSearch_def)
  then have "\<exists>b. some_e (keyword_matches t) (alert_keywords a) = Inr b"
    by (rule some_e_total)
  then show ?thesis using False by (simp add: check_keywords_def)
qed

lemma check_excludeKeywords_total:
  assumes "excludeKeywords (advancedFilters a) \<noteq> [] \<longrightarrow> title t \<noteq> None"
  shows "\<exists>b. check_excludeKeywords a t = Inr b"
  using assms by (auto simp: check_excludeKeywords_def textToSearch_def)

lemma check_locations_total:
  assumes "provinces (locations a) \<noteq> [] \<or> districts (locations a) \<noteq> [] \<or>
           cities (locations a) \<noteq> [] \<longrightarrow> location t \<noteq> None"
  shows "\<exists>b. check_provinces a t = Inr b" "\<exists>b. check_districts a t = Inr b"
        "\<exists>b. check_cities a t = Inr b"
  using assms by (auto simp: check_provinces_def check_districts_def check_cities_def)

lemma check_organizationTypes_total:
  assumes "organizationTypes a \<noteq> [] \<longrightarrow> organization t \<noteq> None"
  shows "\<exists>b. check_organizationTypes a t = Inr b"
  using assms by (auto simp: check_organizationTypes_def)

lemma check_daysUntilClosing_total:
  assumes "truthy_num (minDaysUntilClosing (advancedFilters a)) \<or>
           truthy_num (maxDaysUntilClosing (advancedFilters a)) \<longrightarrow> dates t \<noteq> None"
  shows "\<exists>b. check_daysUntilClosing now a t = Inr b"
  using assms by (auto simp: check_daysUntilClosing_def Let_def split: option.splits)

lemma valueRangeCheck_iff:
  "valueRangeCheck a t \<longleftrightarrow>
     (\<forall>v. tenderValue t = Some v \<longrightarrow> v \<noteq> 0 \<longrightarrow>
        (\<forall>lo. range_min (alert_estimatedValue a) = Some lo \<longrightarrow> lo \<noteq> 0 \<longrightarrow> lo \<le> v) \<and>
        (\<forall>hi. range_max (alert_estimatedValue a) = Some hi \<longrightarrow> hi \<noteq> 0 \<longrightarrow> v \<le> hi))"
  by (cases "range_min (alert_estimatedValue a)"; cases "range_max (alert_estimatedValue a)";
      cases "tenderValue t")
     (auto simp: valueRangeCheck_def Let_def)

lemma shouldTrigger_valueRange:
  "shouldTriggerForTender now a t = Inr True \<Longrightarrow> valueRangeCheck a t"
  unfolding shouldTriggerForTender_def
  by (auto dest!: and_then_True)

lemmas example_defs = bare_tender_def default_alert_def
lemmas matcher_defs =
  shouldTriggerForTender_def and_then_def check_keywords_def check_excludeKeywords_def
  check_categories_def check_provinces_def check_districts_def check_cities_def
  check_organizationTypes_def valueRangeCheck_def tenderValue_def check_daysUntilClosing_def
  check_statuses_def check_priorities_def keyword_matches_def textToSearch_def
  toLowerCase_def endsWith_def

subsection \<open>C3: when the evaluator returns a boolean\<close>

text \<open>
  C3 as stated (the evaluator never throws, whichever optional fields of the record are
  absent) fails: with a keyword clause configured, a record without a title makes
  \<open>tender.title.toLowerCase()\<close> throw.
\<close>

theorem shouldTriggerForTender_throws_counterexample:
  "shouldTriggerForTender 0
     ((default_alert ''a1'')\<lparr>alert_keywords := [\<lparr>kw_term = ''laptop'', matchType = Contains\<rparr>]\<rparr>)
     ((bare_tender ''t1'' ''Laptops'')\<lparr>title := None\<rparr>) = Inl TypeError"
  by (simp add: example_defs matcher_defs)

text \<open>
  C3, amended: the evaluator returns a boolean whenever the record has the containers its
  configured filters read: a title if a keyword or exclude-keyword clause exists, a
  location object if a province, district or city filter exists, an organization object
  if an organization-type filter exists, a dates object if a days-until-closing bound is
  set. Description, extended text, category, city, closing date, value, status and
  priority may be absent. The result is a function of the clock value, the configuration
  and the record.
\<close>

theorem shouldTriggerForTender_returns:
  assumes "alert_keywords a \<noteq> [] \<or> excludeKeywords (advancedFilters a) \<noteq> [] \<longrightarrow>
             title t \<noteq> None"
    and "provinces (locations a) \<noteq> [] \<or> districts (locations a) \<noteq> [] \<or>
         cities (locations a) \<noteq> [] \<longrightarrow> location t \<noteq> None"
    and "organizationTypes a \<noteq> [] \<longrightarrow> organization t \<noteq> None"
    and "truthy_num (minDaysUntilClosing (advancedFilters a)) \<or>
         truthy_num (maxDaysUntilClosing (advancedFilters a)) \<longrightarrow> dates t \<noteq> None"
  shows "\<exists>b. shouldTriggerForTender now a t = Inr b"
  unfolding shouldTriggerForTender_def
  using assms
  by (intro and_then_total check_keywords_total check_excludeKeywords_total
        check_locations_total check_organizationTypes_total check_daysUntilClosing_total)
     (auto simp: check_categories_def check_statuses_def check_priorities_def)

theorem shouldTriggerForTender_returns_witness:
  "alert_keywords
     ((default_alert ''a1'')\<lparr>alert_keywords := [\<lparr>kw_term = ''laptop'', matchType = Contains\<rparr>]\<rparr>)
     \<noteq> [] \<and>
   title (bare_tender ''t1'' ''Supply of 50 Laptops'') \<noteq> None \<and>
   location (bare_tender ''t1'' ''Supply of 50 Laptops'') = None \<and>
   (\<exists>b. shouldTriggerForTender 0
      ((default_alert ''a1'')\<lparr>alert_keywords := [\<lparr>kw_term = ''laptop'', matchType = Contains\<rparr>]\<rparr>)
      (bare_tender ''t1'' ''Supply of 50 Laptops'') = Inr b)"
  using shouldTriggerForTender_returns
    [of "(default_alert ''a1'')\<lparr>alert_keywords := [\<lparr>kw_term = ''laptop'', matchType = Contains\<rparr>]\<rparr>"
        "bare_tender ''t1'' ''Supply of 50 Laptops''" 0]
  by (simp add: example_defs)

subsection \<open>C4: the exact match mode\<close>

text \<open>
  C4 as stated (term "IT" matches a standalone word "IT" bounded by whitespace) fails
  where the whitespace is not the space character: the word IT between a tab and a line
  feed is not matched.
\<close>

theorem exact_whitespace_counterexample:
  "keyword_matches (bare_tender ''t1'' (''LAN'' @ [CHR 0x09] @ ''IT'' @ [CHR 0x0A] @ ''WAN''))
     \<lparr>kw_term = ''IT'', matchType = Exact\<rparr> = Inr False"
  by (simp add: keyword_matches_def textToSearch_def bare_tender_def toLowerCase_def
        char_eval endsWith_def)

text \<open>
  C4, amended: on a record with a title, a clause of mode exact matches exactly when the
  lower-cased term occurs in the lower-cased buffer "title description extended-text"
  with, on each side, a space character or the end of the buffer. So "IT" does not match
  inside "DIGITAL" and matches the word IT between spaces; a tab, a line break or a
  punctuation mark next to the term is not a boundary.
\<close>

theorem exact_clause_space_bounded:
  assumes "title t = Some ti"
  shows "keyword_matches t \<lparr>kw_term = w, matchType = Exact\<rparr> =
         Inr (space_bounded
                (toLowerCase ti @ '' '' @ toLowerCase (or_empty (description t)) @ '' '' @
                 toLowerCase (or_empty (fullTextMarkdown t)))
                (toLowerCase w))"
  using assms exact_iff_space_bounded
  by (simp add: keyword_matches_def textToSearch_def del: clause_matches.simps)

lemma exact_DIGITAL:
  "keyword_matches (bare_tender ''t1'' ''DIGITAL'') \<lparr>kw_term = ''IT'', matchType = Exact\<rparr>
     = Inr False"
  by (simp add: keyword_matches_def textToSearch_def bare_tender_def toLowerCase_def
        char_eval endsWith_def)

lemma exact_standalone_IT:
  "keyword_matches (bare_tender ''t1'' ''Supply of IT equipment'')
     \<lparr>kw_term = ''IT'', matchType = Exact\<rparr> = Inr True"
  by (simp add: keyword_matches_def textToSearch_def bare_tender_def toLowerCase_def
        char_eval endsWith_def)

theorem exact_clause_space_bounded_witness:
  "title (bare_tender ''t1'' ''DIGITAL'') = Some ''DIGITAL'' \<and>
   \<not> space_bounded ''digital  '' ''it'' \<and>
   keyword_matches (bare_tender ''t1'' ''DIGITAL'') \<lparr>kw_term = ''IT'', matchType = Exact\<rparr>
     = Inr False \<and>
   title (bare_tender ''t1'' ''Supply of IT equipment'') = Some ''Supply of IT equipment'' \<and>
   space_bounded ''supply of it equipment  '' ''it'' \<and>
   keyword_matches (bare_tender ''t1'' ''Supply of IT equipment'')
     \<lparr>kw_term = ''IT'', matchType = Exact\<rparr> = Inr True"
proof -
  have t1: "title (bare_tender ''t1'' ''DIGITAL'') = Some ''DIGITAL''"
    by (simp add: bare_tender_def)
  have t2: "title (bare_tender ''t1'' ''Supply of IT equipment'') = Some ''Supply of IT equipment''"
    by (simp add: bare_tender_def)
  have "\<not> space_bounded ''digital  '' ''it''"
    using exact_clause_space_bounded [OF t1, of "''IT''"] exact_DIGITAL
    by (simp add: bare_tender_def toLowerCase_def char_eval)
  moreover have "space_bounded ''supply of it equipment  '' ''it''"
    using exact_clause_space_bounded [OF t2, of "''IT''"] exact_standalone_IT
    by (simp add: bare_tender_def toLowerCase_def char_eval)
  ultimately show ?thesis using t1 t2 exact_DIGITAL exact_standalone_IT by simp
qed

subsection \<open>C5: the value-range check\<close>

text \<open>
  C5 as stated (a record that has an estimated amount matches only if the amount is within
  the bounds) fails at the amount 0: the check tests the amount for truthiness, so a
  record whose amount is 0 passes the bounds 1000 to 5000.
\<close>

theorem value_range_zero_amount_counterexample:
  "tenderValue
     ((bare_tender ''t1'' ''Road works'')
        \<lparr>financials := Some \<lparr>estimatedValue = Some \<lparr>amount = Some 0, currency = Some ''LKR''\<rparr>\<rparr>\<rparr>)
     = Some 0 \<and>
   shouldTriggerForTender 0
     ((default_alert ''a1'')
        \<lparr>alert_estimatedValue :=
           \<lparr>range_min = Some 1000, range_max = Some 5000, range_currency = ''LKR''\<rparr>\<rparr>)
     ((bare_tender ''t1'' ''Road works'')
        \<lparr>financials := Some \<lparr>estimatedValue = Some \<lparr>amount = Some 0, currency = Some ''LKR''\<rparr>\<rparr>\<rparr>)
     = Inr True"
  by (simp add: example_defs matcher_defs)

text \<open>
  C5, amended: the value-range check passes exactly when the record has no amount, or the
  amount is 0, or the amount is at least the minimum (when a minimum other than 0 is set)
  and at most the maximum (when a maximum other than 0 is set); a bound that is absent or
  0 does not constrain. A record that matches the configuration passes this check. With
  the bounds 1000 and 5000 the amount 4000 passes and 6000 fails, and a record without an
  amount passes.
\<close>

theorem value_range_check:
  "(valueRangeCheck a t \<longleftrightarrow>
     (\<forall>v. tenderValue t = Some v \<longrightarrow> v \<noteq> 0 \<longrightarrow>
        (\<forall>lo. range_min (alert_estimatedValue a) = Some lo \<longrightarrow> lo \<noteq> 0 \<longrightarrow> lo \<le> v) \<and>
        (\<forall>hi. range_max (alert_estimatedValue a) = Some hi \<longrightarrow> hi \<noteq> 0 \<longrightarrow> v \<le> hi))) \<and>
   (shouldTriggerForTender now a t = Inr True \<longrightarrow> valueRangeCheck a t)"
  using valueRangeCheck_iff [of a t] shouldTrigger_valueRange [of now a t] by blast

theorem value_range_check_witness:
  "valueRangeCheck
     ((default_alert ''a1'')
        \<lparr>alert_estimatedValue :=
           \<lparr>range_min = Some 1000, range_max = Some 5000, range_currency = ''LKR''\<rparr>\<rparr>)
     ((bare_tender ''t1'' ''Road works'')
        \<lparr>financials := Some \<lparr>estimatedValue = Some \<lparr>amount = Some 4000, currency = Some ''LKR''\<rparr>\<rparr>\<rparr>) \<and>
   \<not> valueRangeCheck
     ((default_alert ''a1'')
        \<lparr>alert_estimatedValue :=
           \<lparr>range_min = Some 1000, range_max = Some 5000, range_currency = ''LKR''\<rparr>\<rparr>)
     ((bare_tender ''t1'' ''Road works'')
        \<lparr>financials := Some \<lparr>estimatedValue = Some \<lparr>amount = Some 6000, currency = Some ''LKR''\<rparr>\<rparr>\<rparr>) \<and>
   valueRangeCheck
     ((default_alert ''a1'')
        \<lparr>alert_estimatedValue :=
           \<lparr>range_min = Some 1000, range_max = Some 5000, range_currency = ''LKR''\<rparr>\<rparr>)
     (bare_tender ''t1'' ''Road works'')"
  using
    value_range_check
      [of "(default_alert ''a1'')
             \<lparr>alert_estimatedValue :=
                \<lparr>range_min = Some 1000, range_max = Some 5000, range_currency = ''LKR''\<rparr>\<rparr>"
          "(bare_tender ''t1'' ''Road works'')
             \<lparr>financials := Some \<lparr>estimatedValue = Some \<lparr>amount = Some 4000, currency = Some ''LKR''\<rparr>\<rparr>\<rparr>" 0]
    value_range_check
      [of "(default_alert ''a1'')
             \<lparr>alert_estimatedValue :=
                \<lparr>range_min = Some 1000, range_max = Some 5000, range_currency = ''LKR''\<rparr>\<rparr>"
          "(bare_tender ''t1'' ''Road works'')
             \<lparr>financials := Some \<lparr>estimatedValue = Some \<lparr>amount = Some 6000, currency = Some ''LKR''\<rparr>\<rparr>\<rparr>" 0]
    value_range_check
      [of "(default_alert ''a1'')
             \<lparr>alert_estimatedValue :=
                \<lparr>range_min = Some 1000, range_max = Some 5000, range_currency = ''LKR''\<rparr>\<rparr>"
          "bare_tender ''t1'' ''Road works''" 0]
  by (simp add: example_defs tenderValue_def)

section \<open>Matching, deduplication and statistics\<close>











lemma removeDuplicateTenders_Nil_iff: "removeDuplicateTenders ts = [] \<longleftrightarrow> ts = []"
  by (cases ts) (auto simp: removeDuplicateTenders_def)



lemma foldl_updateStats_emailsSent:
  "emailsSent (alert_stats (foldl (\<lambda>d t. updateStats (g t) d t) a ms)) =
     emailsSent (alert_stats a)"
  by (induction ms arbitrary: a) (auto simp: updateStats_def)


lemma update_alert_emailsSent:
  "emailsSent (alert_stats (update_alert clk ms a)) =
     emailsSent (alert_stats a) + (if ms = [] then 0 else 1)"
  by (simp add: update_alert_def incrementEmailSent_def foldl_updateStats_emailsSent)









section \<open>The immediate run\<close>

lemma process_alert_skips: "skips a \<Longrightarrow> process_alert e now t a st = (a, st)"
  by (auto simp: process_alert_def skips_def split: option.splits)

lemma process_alerts_Cons:
  "process_alerts e now t (a # as) st =
     (fst (process_alert e now t a st) #
        fst (process_alerts e now t as (snd (process_alert e now t a st))),
      snd (process_alerts e now t as (snd (process_alert e now t a st))))"
  by (simp split: prod.splits)

lemma process_alerts_length: "length (fst (process_alerts e now t as st)) = length as"
  by (induction as arbitrary: st) (simp_all add: process_alerts_Cons del: process_alerts.simps(2))

lemma process_alerts_skip_state:
  "snd (process_alerts e now t as st) =
   snd (process_alerts e now t (filter (\<lambda>a. \<not> skips a) as) st)"
  by (induction as arbitrary: st)
     (simp_all add: process_alerts_Cons process_alert_skips del: process_alerts.simps(2))

lemma process_alerts_skip_doc:
  "i < length as \<Longrightarrow> skips (as ! i) \<Longrightarrow> fst (process_alerts e now t as st) ! i = as ! i"
proof (induction as arbitrary: st i)
  case Nil
  then show ?case by simp
next
  case (Cons a as)
  then show ?case
    by (cases i)
       (simp_all add: process_alerts_Cons process_alert_skips del: process_alerts.simps(2))
qed

subsection \<open>C10: configurations without the email-alert entitlement\<close>

text \<open>
  C10: in an immediate run, a configuration whose populated user is absent, or whose user's
  \<open>subscription.features.emailAlerts\<close> flag is not true, is skipped before the predicate
  is evaluated. The iteration for it leaves the document and the state of the run
  (processed count, sent count, error list, sent messages) as they are; the state after
  the loop is the state after the loop over the other configurations only, whatever the
  evaluator would have done on the skipped ones, and every skipped document is unchanged
  at its position.
\<close>

theorem immediate_run_skips_unentitled:
  "(skips a \<longleftrightarrow>
      alert_user a = None \<or>
      (\<exists>u. alert_user a = Some u \<and>
           (\<forall>s ft. user_subscription u = Some s \<longrightarrow> sub_features s = Some ft \<longrightarrow>
                    emailAlerts ft \<noteq> Some True))) \<and>
   (skips a \<longrightarrow> process_alert e now t a st = (a, st)) \<and>
   snd (process_alerts e now t as st) =
     snd (process_alerts e now t (filter (\<lambda>a. \<not> skips a) as) st) \<and>
   (\<forall>i<length as. skips (as ! i) \<longrightarrow> fst (process_alerts e now t as st) ! i = as ! i)"
proof -
  have "skips a \<longleftrightarrow>
      alert_user a = None \<or>
      (\<exists>u. alert_user a = Some u \<and>
           (\<forall>s ft. user_subscription u = Some s \<longrightarrow> sub_features s = Some ft \<longrightarrow>
                    emailAlerts ft \<noteq> Some True))"
    by (auto simp: skips_def emailAlerts_enabled_def split: option.splits)
  then show ?thesis
    using process_alert_skips [of a e now t st] process_alerts_skip_state [of e now t as st]
      process_alerts_skip_doc [of _ as e now t st]
    by blast
qed

lemma skips_examples:
  "skips ((default_alert ''a1'')\<lparr>alert_keywords := [\<lparr>kw_term = ''laptop'', matchType = Contains\<rparr>]\<rparr>)"
  "skips (owned_alert ''a2'' ''Roads'' Immediate (example_user ''u2'' False))"
  by (simp_all add: skips_def emailAlerts_enabled_def default_alert_def owned_alert_def
        example_user_def)

theorem immediate_run_skips_unentitled_witness:
  "skips ((default_alert ''a1'')\<lparr>alert_keywords := [\<lparr>kw_term = ''laptop'', matchType = Contains\<rparr>]\<rparr>) \<and>
   skips (owned_alert ''a2'' ''Roads'' Immediate (example_user ''u2'' False)) \<and>
   process_alerts (example_env True) 0 ((bare_tender ''t1'' ''Laptops'')\<lparr>title := None\<rparr>)
     [(default_alert ''a1'')\<lparr>alert_keywords := [\<lparr>kw_term = ''laptop'', matchType = Contains\<rparr>]\<rparr>,
      owned_alert ''a2'' ''Roads'' Immediate (example_user ''u2'' False)]
     results_init =
   ([(default_alert ''a1'')\<lparr>alert_keywords := [\<lparr>kw_term = ''laptop'', matchType = Contains\<rparr>]\<rparr>,
     owned_alert ''a2'' ''Roads'' Immediate (example_user ''u2'' False)],
    results_init)"
proof -
  let ?a1 = "(default_alert ''a1'')\<lparr>alert_keywords := [\<lparr>kw_term = ''laptop'', matchType = Contains\<rparr>]\<rparr>"
  let ?a2 = "owned_alert ''a2'' ''Roads'' Immediate (example_user ''u2'' False)"
  let ?t = "(bare_tender ''t1'' ''Laptops'')\<lparr>title := None\<rparr>"
  let ?run = "process_alerts (example_env True) 0 ?t [?a1, ?a2] results_init"
  note th = immediate_run_skips_unentitled
              [of ?a1 "example_env True" 0 ?t results_init "[?a1, ?a2]"]
  have flt: "filter (\<lambda>a. \<not> skips a) [?a1, ?a2] = []"
    using skips_examples by simp
  have st: "snd ?run = results_init"
    using th [THEN conjunct2, THEN conjunct2, THEN conjunct1] unfolding flt
    by (simp del: process_alerts.simps(2))
  note docs = th [THEN conjunct2, THEN conjunct2, THEN conjunct2, rule_format]
  have d0: "fst ?run ! 0 = ?a1"
    using docs [of 0] skips_examples(1) by (simp del: process_alerts.simps(2))
  have d1: "fst ?run ! 1 = ?a2"
    using docs [of 1] skips_examples(2) by (simp del: process_alerts.simps(2))
  have len: "length (fst ?run) = 2"
    by (simp add: process_alerts_length del: process_alerts.simps(2))
  have "fst ?run = [?a1, ?a2]"
  proof (rule nth_equalityI)
    show "length (fst ?run) = length [?a1, ?a2]"
      using len by (simp del: process_alerts.simps(2))
  next
    fix i assume "i < length (fst ?run)"
    then have "i = 0 \<or> i = 1" using len by auto
    then show "fst ?run ! i = [?a1, ?a2] ! i"
      using d0 d1 by (auto simp del: process_alerts.simps(2))
  qed
  then have "?run = ([?a1, ?a2], results_init)"
    using st by (simp add: prod_eq_iff del: process_alerts.simps(2))
  then show ?thesis using skips_examples by (simp del: process_alerts.simps(2))
qed

section \<open>The summary runs\<close>



lemma process_user_no_match:
  assumes "alerts \<noteq> []" and "uniqueTenders clk recent alerts = Inr []"
  shows "process_user e clk f recent (uid, alerts) st =
           ((uid, alerts), st\<lparr>processed := processed st + 1\<rparr>)"
  using assms by (cases alerts) (auto simp: process_user_def)

lemma process_user_send_fails:
  assumes "alerts \<noteq> []" and "uniqueTenders clk recent alerts = Inr uniq" and "uniq \<noteq> []"
    and "sendSummary e clk f (alert_user (hd alerts)) uniq alerts = Inl x"
  shows "process_user e clk f recent (uid, alerts) st =
           ((uid, alerts), push_error (UserError uid (summary_type f) x) st)"
  using assms by (cases alerts) (auto simp: process_user_def)






lemma map_push_keys:
  "map fst (map_push k a m) = (if k \<in> fst ` set m then map fst m else map fst m @ [k])"
  by (induction m) force+

lemma map_push_distinct: "distinct (map fst m) \<Longrightarrow> distinct (map fst (map_push k a m))"
  by (simp add: map_push_keys)

lemma map_push_map_of:
  "map_of (map_push k a m) =
     (map_of m)(k \<mapsto> (case map_of m k of None \<Rightarrow> [] | Some v \<Rightarrow> v) @ [a])"
  by (induction m) (auto simp: fun_eq_iff)

lemma map_push_filter_same:
  "filter (\<lambda>g. fst g \<noteq> k) (map_push k a m) = filter (\<lambda>g. fst g \<noteq> k) m"
  by (induction m) auto

lemma map_push_filter_other:
  "k \<noteq> uid \<Longrightarrow>
   filter (\<lambda>g. fst g \<noteq> uid) (map_push k a m) = map_push k a (filter (\<lambda>g. fst g \<noteq> uid) m)"
  by (induction m) auto

lemma groupAlertsByUser_from_spec:
  assumes "groupAlertsByUser_from as m = Inr r" and "distinct (map fst m)"
  shows "distinct (map fst r) \<and>
         (\<forall>k. map_of r k =
            (if k \<in> fst ` set m \<or> (\<exists>a\<in>set as. owner_is k a)
             then Some ((case map_of m k of None \<Rightarrow> [] | Some v \<Rightarrow> v) @ filter (owner_is k) as)
             else None))"
  using assms
proof (induction as arbitrary: m r)
  case Nil
  then show ?case
    by (auto simp: map_of_eq_None_iff split: option.splits)
next
  case (Cons a as)
  from Cons.prems(1) obtain u where u: "alert_user a = Some u"
    and rec: "groupAlertsByUser_from as (map_push (user_id u) a m) = Inr r"
    by (auto split: option.splits)
  let ?k = "user_id u"
  let ?m = "map_push ?k a m"
  have d: "distinct (map fst ?m)" using Cons.prems(2) by (rule map_push_distinct)
  from Cons.IH [OF rec d]
  have dr: "distinct (map fst r)"
    and mo: "\<And>k. map_of r k =
            (if k \<in> fst ` set ?m \<or> (\<exists>a\<in>set as. owner_is k a)
             then Some ((case map_of ?m k of None \<Rightarrow> [] | Some v \<Rightarrow> v) @ filter (owner_is k) as)
             else None)"
    by auto
  have "set (map fst ?m) = insert ?k (set (map fst m))"
    by (auto simp: map_push_keys)
  then have keys: "fst ` set ?m = insert ?k (fst ` set m)" by simp
  have own: "owner_is k a \<longleftrightarrow> k = ?k" for k
    using u by (auto simp: owner_is_def)
  show ?case
  proof (intro conjI allI)
    show "distinct (map fst r)" by (rule dr)
  next
    fix k
    show "map_of r k =
            (if k \<in> fst ` set m \<or> (\<exists>a\<in>set (a # as). owner_is k a)
             then Some ((case map_of m k of None \<Rightarrow> [] | Some v \<Rightarrow> v) @ filter (owner_is k) (a # as))
             else None)"
      unfolding mo [of k] keys
      by (cases "k = ?k") (auto simp: map_push_map_of own)
  qed
qed

lemma groupAlertsByUser_spec:
  assumes "groupAlertsByUser as = Inr groups"
  shows "distinct (map fst groups)"
    and "(k, v) \<in> set groups \<longleftrightarrow> v = filter (owner_is k) as \<and> (\<exists>a\<in>set as. owner_is k a)"
proof -
  from groupAlertsByUser_from_spec [OF assms [unfolded groupAlertsByUser_def]]
  have d: "distinct (map fst groups)"
    and mo: "\<And>k. map_of groups k =
       (if \<exists>a\<in>set as. owner_is k a then Some (filter (owner_is k) as) else None)"
    by auto
  show "distinct (map fst groups)" by (rule d)
  have "(k, v) \<in> set groups \<longleftrightarrow> map_of groups k = Some v"
    using d by simp
  then show "(k, v) \<in> set groups \<longleftrightarrow> v = filter (owner_is k) as \<and> (\<exists>a\<in>set as. owner_is k a)"
    unfolding mo by auto
qed

lemma groupAlertsByUser_from_filter:
  assumes "groupAlertsByUser_from as m = Inr r"
  shows "groupAlertsByUser_from (filter (\<lambda>a. \<not> owner_is uid a) as)
           (filter (\<lambda>g. fst g \<noteq> uid) m) = Inr (filter (\<lambda>g. fst g \<noteq> uid) r)"
  using assms
proof (induction as arbitrary: m r)
  case Nil
  then show ?case by simp
next
  case (Cons a as)
  from Cons.prems obtain u where u: "alert_user a = Some u"
    and rec: "groupAlertsByUser_from as (map_push (user_id u) a m) = Inr r"
    by (auto split: option.splits)
  show ?case
  proof (cases "user_id u = uid")
    case True
    then have "owner_is uid a" using u by (simp add: owner_is_def)
    then show ?thesis using Cons.IH [OF rec] True by (simp add: map_push_filter_same)
  next
    case False
    then have "\<not> owner_is uid a" using u by (simp add: owner_is_def)
    then show ?thesis using Cons.IH [OF rec] False u by (simp add: map_push_filter_other)
  qed
qed

lemma groupAlertsByUser_filter:
  assumes "groupAlertsByUser as = Inr groups"
  shows "groupAlertsByUser (filter (\<lambda>a. \<not> owner_is uid a) as) =
           Inr (filter (\<lambda>g. fst g \<noteq> uid) groups)"
  using groupAlertsByUser_from_filter [OF assms [unfolded groupAlertsByUser_def], of uid]
  by (simp add: groupAlertsByUser_def)

lemma process_users_Cons:
  "process_users e clk f recent (g # gs) st =
     (fst (process_user e clk f recent g st) #
        fst (process_users e clk f recent gs (snd (process_user e clk f recent g st))),
      snd (process_users e clk f recent gs (snd (process_user e clk f recent g st))))"
  by (simp split: prod.splits)

lemma process_user_no_match':
  "no_match clk recent g \<Longrightarrow>
   process_user e clk f recent g st = (g, st\<lparr>processed := processed st + 1\<rparr>)"
  using process_user_no_match [of "snd g" clk recent e f "fst g" st]
  by (simp add: no_match_def)

lemma process_user_sends:
  assumes "outbox st = outbox st'" and "results_emailsSent st = results_emailsSent st'"
  shows "outbox (snd (process_user e clk f recent g st)) =
         outbox (snd (process_user e clk f recent g st')) \<and>
         results_emailsSent (snd (process_user e clk f recent g st)) =
         results_emailsSent (snd (process_user e clk f recent g st'))"
  using assms
  by (auto simp: process_user_def push_error_def Let_def
           split: prod.splits list.splits sum.splits option.splits)

lemma process_users_without:
  assumes "\<forall>g\<in>set gs. fst g = uid \<longrightarrow> no_match clk recent g"
    and "outbox st = outbox st'" and "results_emailsSent st = results_emailsSent st'"
  shows "outbox (snd (process_users e clk f recent gs st)) =
         outbox (snd (process_users e clk f recent (filter (\<lambda>g. fst g \<noteq> uid) gs) st')) \<and>
         results_emailsSent (snd (process_users e clk f recent gs st)) =
         results_emailsSent
           (snd (process_users e clk f recent (filter (\<lambda>g. fst g \<noteq> uid) gs) st'))"
  using assms
proof (induction gs arbitrary: st st')
  case Nil
  then show ?case by simp
next
  case (Cons g gs)
  have rest: "\<forall>g\<in>set gs. fst g = uid \<longrightarrow> no_match clk recent g" using Cons.prems(1) by simp
  show ?case
  proof (cases "fst g = uid")
    case True
    then have nm: "no_match clk recent g" using Cons.prems(1) by simp
    have "outbox (st\<lparr>processed := processed st + 1\<rparr>) = outbox st'"
      "results_emailsSent (st\<lparr>processed := processed st + 1\<rparr>) = results_emailsSent st'"
      using Cons.prems(2,3) by simp_all
    from Cons.IH [OF rest this] show ?thesis
      using True by (simp add: process_users_Cons process_user_no_match' [OF nm]
          del: process_users.simps(2))
  next
    case False
    from process_user_sends [OF Cons.prems(2,3), of e clk f recent g]
    have "outbox (snd (process_user e clk f recent g st)) =
          outbox (snd (process_user e clk f recent g st'))"
      "results_emailsSent (snd (process_user e clk f recent g st)) =
       results_emailsSent (snd (process_user e clk f recent g st'))"
      by simp_all
    from Cons.IH [OF rest this] show ?thesis
      using False by (simp add: process_users_Cons del: process_users.simps(2))
  qed
qed

lemma process_users_keeps:
  assumes "g \<in> set gs" and "no_match clk recent g"
  shows "g \<in> set (fst (process_users e clk f recent gs st))"
  using assms(1)
proof (induction gs arbitrary: st)
  case Nil
  then show ?case by simp
next
  case (Cons h gs)
  show ?case
  proof (cases "g = h")
    case True
    then show ?thesis
      using process_user_no_match' [OF assms(2), of e f st]
      by (simp add: process_users_Cons del: process_users.simps(2))
  next
    case False
    then have "g \<in> set gs" using Cons.prems by simp
    from Cons.IH [OF this] show ?thesis
      by (simp add: process_users_Cons del: process_users.simps(2))
  qed
qed

lemma processSummaries_without_owner:
  assumes run: "processSummaries e clk f A recent = Inr (docs, st)"
    and none: "uniqueTenders clk recent (filter (owner_is uid) A) = Inr []"
  shows "(\<forall>a\<in>set A. owner_is uid a \<longrightarrow> a \<in> set docs) \<and>
         (\<exists>docs' st'.
            processSummaries e clk f (filter (\<lambda>a. \<not> owner_is uid a) A) recent = Inr (docs', st') \<and>
            outbox st' = outbox st \<and> results_emailsSent st' = results_emailsSent st)"
proof (cases "A = [] \<or> recent = []")
  case True
  show ?thesis
  proof (cases "A = []")
    case True
    then show ?thesis using run by (simp add: processSummaries_def)
  next
    case False
    then have "recent = []" using True by simp
    then have "docs = A" and "st = results_init" using run False
      by (simp_all add: processSummaries_def)
    then show ?thesis using \<open>recent = []\<close>
      by (simp add: processSummaries_def results_none_def results_init_def)
  qed
next
  case False
  then have A: "A \<noteq> []" and R: "recent \<noteq> []" by auto
  from run A R obtain groups where groups: "groupAlertsByUser A = Inr groups"
    by (auto simp: processSummaries_def split: sum.splits)
  let ?P = "process_users e clk f recent groups results_init"
  from run A R groups have docs: "docs = concat (map snd (fst ?P))" and st: "st = snd ?P"
    by (auto simp: processSummaries_def split: prod.splits)
  let ?G2 = "filter (\<lambda>g. fst g \<noteq> uid) groups"
  let ?A2 = "filter (\<lambda>a. \<not> owner_is uid a) A"
  have g2: "groupAlertsByUser ?A2 = Inr ?G2" using groups by (rule groupAlertsByUser_filter)
  have nm: "\<forall>g\<in>set groups. fst g = uid \<longrightarrow> no_match clk recent g"
  proof (intro ballI impI)
    fix g assume g: "g \<in> set groups" and k: "fst g = uid"
    then have "(uid, snd g) \<in> set groups" by (metis prod.collapse)
    then have "snd g = filter (owner_is uid) A" and "\<exists>a\<in>set A. owner_is uid a"
      using groupAlertsByUser_spec(2) [OF groups] by auto
    then show "no_match clk recent g" using none
      by (auto simp: no_match_def filter_empty_conv)
  qed
  have same: "outbox st = outbox (snd (process_users e clk f recent ?G2 results_init)) \<and>
     results_emailsSent st = results_emailsSent (snd (process_users e clk f recent ?G2 results_init))"
    unfolding st by (rule process_users_without [OF nm]) simp_all
  have part1: "\<forall>a\<in>set A. owner_is uid a \<longrightarrow> a \<in> set docs"
  proof (intro ballI impI)
    fix a assume a: "a \<in> set A" and o: "owner_is uid a"
    then have in_g: "(uid, filter (owner_is uid) A) \<in> set groups"
      using groupAlertsByUser_spec(2) [OF groups] by auto
    then have "no_match clk recent (uid, filter (owner_is uid) A)" using nm by auto
    from process_users_keeps [OF in_g this]
    have "(uid, filter (owner_is uid) A) \<in> set (fst ?P)" .
    moreover have "a \<in> set (snd (uid, filter (owner_is uid) A))" using a o by simp
    ultimately have "\<exists>g\<in>set (fst ?P). a \<in> set (snd g)" by (rule bexI [rotated])
    then show "a \<in> set docs" unfolding docs by simp
  qed
  have part2: "\<exists>docs' st'.
            processSummaries e clk f ?A2 recent = Inr (docs', st') \<and>
            outbox st' = outbox st \<and> results_emailsSent st' = results_emailsSent st"
  proof (cases "?A2 = []")
    case True
    then have "?G2 = []" using g2 by (simp add: groupAlertsByUser_def)
    then have "outbox st = []" "results_emailsSent st = 0"
      using same by (simp_all add: results_init_def)
    then show ?thesis using True
      by (simp add: processSummaries_def results_none_def)
  next
    case False
    then show ?thesis using R g2 same
      by (simp add: processSummaries_def split: prod.splits)
  qed
  from part1 part2 show ?thesis by blast
qed

lemma findDailyAlerts_filter:
  "findDailyAlerts tm (filter P coll) = filter P (findDailyAlerts tm coll)"
  by (induction coll) (auto simp: findDailyAlerts_def)

section \<open>The rendered bodies\<close>

lemma str_includes_sublist: "str_includes s w \<longleftrightarrow> sublist w s"
  by (simp add: str_includes_iff sublist_def)

lemma sublist_trans: "sublist u v \<Longrightarrow> sublist v w \<Longrightarrow> sublist u w"
  by (rule sublist_order.order_trans)

lemma sublist_append_l: "sublist w s \<Longrightarrow> sublist w (p @ s)"
  by (metis sublist_append_leftI sublist_trans)

lemma sublist_append_r: "sublist w s \<Longrightarrow> sublist w (s @ r)"
  by (metis sublist_append_rightI sublist_trans)

lemma render_hole:
  "render f tpl = Inr s \<Longrightarrow> Hole h \<in> set tpl \<Longrightarrow> \<exists>v. f h = Inr v \<and> sublist v s"
proof (induction f tpl arbitrary: s rule: render.induct)
  case (1 f)
  then show ?case by simp
next
  case (2 f l ps)
  from "2.prems" obtain r where r: "render f ps = Inr r" and s: "s = l @ r"
    by (auto split: sum.splits)
  from "2.IH" [OF r] "2.prems"(2) obtain v where "f h = Inr v" "sublist v r" by auto
  then show ?case using s by (auto intro: sublist_append_l)
next
  case (3 f h' ps)
  from "3.prems" obtain v' r where v': "f h' = Inr v'" and r: "render f ps = Inr r"
    and s: "s = v' @ r"
    by (auto split: sum.splits)
  show ?case
  proof (cases "h = h'")
    case True
    then show ?thesis using v' s by auto
  next
    case False
    then have "Hole h \<in> set ps" using "3.prems"(2) by simp
    from "3.IH" [OF v' r this] obtain v where "f h = Inr v" "sublist v r" by auto
    then show ?thesis using s by (auto intro: sublist_append_l)
  qed
qed

lemma concat_map_e_elem:
  "concat_map_e f xs = Inr s \<Longrightarrow> x \<in> set xs \<Longrightarrow> \<exists>v. f x = Inr v \<and> sublist v s"
proof (induction xs arbitrary: s)
  case Nil
  then show ?case by simp
next
  case (Cons y ys)
  from Cons.prems(1) obtain v' r where v': "f y = Inr v'" and r: "concat_map_e f ys = Inr r"
    and s: "s = v' @ r"
    by (auto split: sum.splits)
  show ?case
  proof (cases "x = y")
    case True
    then show ?thesis using v' s by auto
  next
    case False
    then have "x \<in> set ys" using Cons.prems(2) by simp
    from Cons.IH [OF r this] obtain v where "f x = Inr v" "sublist v r" by auto
    then show ?thesis using s by (auto intro: sublist_append_l)
  qed
qed

lemma render_tenders_elem:
  assumes "render_tenders e tpl ts = Inr s" and "i < length ts"
  shows "\<exists>v. render (tender_hole_value e i (ts ! i)) tpl = Inr v \<and> sublist v s"
proof -
  have "(i, ts ! i) \<in> set (enumerate 0 ts)" using assms(2) by (simp add: in_set_enumerate_eq)
  from concat_map_e_elem [OF assms(1) [unfolded render_tenders_def] this]
  show ?thesis by simp
qed

lemma render_tenders_field:
  assumes "render_tenders e tpl ts = Inr s" and "i < length ts" and "Hole h \<in> set tpl"
  shows "\<exists>v. tender_hole_value e i (ts ! i) h = Inr v \<and> sublist v s"
proof -
  from render_tenders_elem [OF assms(1,2)] obtain item
    where item: "render (tender_hole_value e i (ts ! i)) tpl = Inr item" and sub: "sublist item s"
    by blast
  from render_hole [OF item assms(3)] obtain v
    where "tender_hole_value e i (ts ! i) h = Inr v" "sublist v item" by blast
  then show ?thesis using sub by (blast intro: sublist_trans)
qed

lemma concat_map_e_eq:
  "concat_map_e f xs = Inr s \<Longrightarrow> (\<And>x v. x \<in> set xs \<Longrightarrow> f x = Inr v \<Longrightarrow> v = g x) \<Longrightarrow>
   s = concat (map g xs)"
proof (induction xs arbitrary: s)
  case Nil
  then show ?case by simp
next
  case (Cons y ys)
  from Cons.prems(1) obtain v r where v: "f y = Inr v" and r: "concat_map_e f ys = Inr r"
    and s: "s = v @ r"
    by (auto split: sum.splits)
  have "v = g y" using Cons.prems(2) [of y v] v by simp
  moreover have "r = concat (map g ys)" using Cons.IH [OF r] Cons.prems(2) by simp
  ultimately show ?case using s by simp
qed

lemma sublist_concat_map: "x \<in> set xs \<Longrightarrow> sublist (g x) (concat (map g xs))"
proof -
  assume "x \<in> set xs"
  then obtain ys zs where "xs = ys @ x # zs" by (auto simp: in_set_conv_decomp)
  then have "concat (map g xs) = concat (map g ys) @ g x @ concat (map g zs)" by simp
  then show ?thesis by (metis sublist_appendI)
qed

lemma items_text_elem:
  "i < length ts \<Longrightarrow> sublist (item i (ts ! i)) (items_text item ts)"
proof -
  assume "i < length ts"
  then have "(i, ts ! i) \<in> set (enumerate 0 ts)" by (simp add: in_set_enumerate_eq)
  from sublist_concat_map [OF this, of "\<lambda>(i, t). item i t"] show ?thesis
    by (simp add: items_text_def)
qed

lemma render_tenders_eq:
  assumes "render_tenders e tpl ts = Inr s"
    and "\<And>i t v. t \<in> set ts \<Longrightarrow> render (tender_hole_value e i t) tpl = Inr v \<Longrightarrow> v = item i t"
  shows "s = items_text item ts"
  unfolding items_text_def
proof (rule concat_map_e_eq [OF assms(1) [unfolded render_tenders_def]])
  fix x v assume x: "x \<in> set (enumerate 0 ts)"
    and v: "(case x of (i, t) \<Rightarrow> render (tender_hole_value e i t) tpl) = Inr v"
  obtain i t where [simp]: "x = (i, t)" by (cases x)
  have "t \<in> set ts" using x by (auto simp: in_set_enumerate_eq)
  then show "v = (case x of (i, t) \<Rightarrow> item i t)" using assms(2) [of t i v] v by simp
qed

lemma render_tenders_all:
  assumes "render_tenders e tpl ts = Inr s" and "t \<in> set ts"
  shows "\<exists>i v. render (tender_hole_value e i t) tpl = Inr v"
proof -
  from assms(2) obtain i where "i < length ts" "ts ! i = t" by (auto simp: in_set_conv_nth)
  with render_tenders_elem [OF assms(1), of i] show ?thesis by auto
qed

lemma alert_item_text_eq:
  assumes "render (tender_hole_value e i t) alert_item_text = Inr v"
  shows "organization t \<noteq> None \<and> location t \<noteq> None \<and> dates t \<noteq> None"
    and "v = alert_text_item e i t"
  using assms
  by (auto simp: alert_item_text_def alert_text_item_def value_lines_def value_block_def
                 value_text_def split: sum.splits option.splits)

lemma summary_item_text_eq:
  assumes "render (tender_hole_value e i t) summary_item_text = Inr v"
  shows "organization t \<noteq> None \<and> location t \<noteq> None \<and> dates t \<noteq> None"
    and "v = summary_text_item e i t"
  using assms
  by (auto simp: summary_item_text_def summary_text_item_def split: sum.splits option.splits)

lemma alert_text_eq:
  assumes "generateAlertEmailText e ts a = Inr txt"
  shows "txt = alert_text_body e ts a"
    and "\<forall>t\<in>set ts. organization t \<noteq> None \<and> location t \<noteq> None \<and> dates t \<noteq> None"
proof -
  from assms obtain items where items: "render_tenders e alert_item_text ts = Inr items"
    and body: "txt = (''TENDER ALERT: '' @ alert_name a @ nl @ replicate 50 CHR ''='' @ nl @ nl) @
                    alert_count_sentence (length ts) @ nl @ items @ text_footer e"
    by (auto simp: generateAlertEmailText_def alert_page_text_def alert_count_sentence_def
                   text_footer_def split: sum.splits)
  have "items = items_text (alert_text_item e) ts"
    using items alert_item_text_eq(2) by (rule render_tenders_eq)
  then show "txt = alert_text_body e ts a" using body by (simp add: alert_text_body_def)
  show "\<forall>t\<in>set ts. organization t \<noteq> None \<and> location t \<noteq> None \<and> dates t \<noteq> None"
  proof
    fix t assume "t \<in> set ts"
    from render_tenders_all [OF items this] obtain i v
      where "render (tender_hole_value e i t) alert_item_text = Inr v" by blast
    then show "organization t \<noteq> None \<and> location t \<noteq> None \<and> dates t \<noteq> None"
      by (rule alert_item_text_eq(1))
  qed
qed

lemma summary_section_eq:
  assumes "render_section e summary_section_text entry = Inr sec"
  shows "sec = summary_text_section e entry"
    and "\<forall>t\<in>set (snd (snd entry)).
           organization t \<noteq> None \<and> location t \<noteq> None \<and> dates t \<noteq> None"
proof -
  obtain k c rs where entry: "entry = (k, c, rs)" by (cases entry)
  show "sec = summary_text_section e entry"
  proof (cases "rs = []")
    case True
    then show ?thesis using assms entry
      by (simp add: render_section_def summary_text_section_def)
  next
    case False
    from assms entry False obtain items
      where items: "render_tenders e summary_item_text rs = Inr items"
        and sec: "sec = section_header c (length rs) @ replicate 30 CHR ''-'' @ nl @ items"
      by (auto simp: render_section_def summary_section_text_def section_header_def
               split: sum.splits)
    have "items = items_text (summary_text_item e) rs"
      using items summary_item_text_eq(2) by (rule render_tenders_eq)
    then show ?thesis using sec entry False by (simp add: summary_text_section_def)
  qed
  show "\<forall>t\<in>set (snd (snd entry)).
           organization t \<noteq> None \<and> location t \<noteq> None \<and> dates t \<noteq> None"
  proof (cases "rs = []")
    case True
    then show ?thesis using entry by simp
  next
    case False
    from assms entry False obtain items
      where items: "render_tenders e summary_item_text rs = Inr items"
      by (auto simp: render_section_def summary_section_text_def split: sum.splits)
    show ?thesis
    proof
      fix t assume "t \<in> set (snd (snd entry))"
      then have "t \<in> set rs" using entry by simp
      from render_tenders_all [OF items this] obtain i v
        where "render (tender_hole_value e i t) summary_item_text = Inr v" by blast
      then show "organization t \<noteq> None \<and> location t \<noteq> None \<and> dates t \<noteq> None"
        by (rule summary_item_text_eq(1))
    qed
  qed
qed

lemma summary_text_eq:
  assumes "generateSummaryEmailText e g f u = Inr txt"
  shows "txt = summary_text_body e g f u"
    and "\<forall>(k, c, rs)\<in>set g. \<forall>t\<in>set rs.
           organization t \<noteq> None \<and> location t \<noteq> None \<and> dates t \<noteq> None"
proof -
  from assms obtain secs
    where secs: "concat_map_e (render_section e summary_section_text) g = Inr secs"
      and body: "txt = (toUpperCase f @ '' TENDER SUMMARY'' @ nl @ replicate 50 CHR ''='' @ nl @ nl @
                       ''Hello '' @ greeting_name u @ ''!'' @ nl @ nl) @
                      secs @
                      (if totalTenders g = 0 then
                         ''No new tenders matched your alert criteria this '' @ toLowerCase f @
                         ''.'' @ nl @ nl
                       else []) @
                      text_footer e"
    by (auto simp: generateSummaryEmailText_def summary_page_text_def text_footer_def
             split: sum.splits)
  have "secs = concat (map (summary_text_section e) g)"
    using secs summary_section_eq(1) by (rule concat_map_e_eq)
  then show "txt = summary_text_body e g f u" using body by (simp add: summary_text_body_def)
  show "\<forall>(k, c, rs)\<in>set g. \<forall>t\<in>set rs.
           organization t \<noteq> None \<and> location t \<noteq> None \<and> dates t \<noteq> None"
  proof (clarify)
    fix k c rs t assume m: "(k, c, rs) \<in> set g" and t: "t \<in> set rs"
    from concat_map_e_elem [OF secs m] obtain sec
      where "render_section e summary_section_text (k, c, rs) = Inr sec" by blast
    from summary_section_eq(2) [OF this] t
    show "organization t \<noteq> None \<and> location t \<noteq> None \<and> dates t \<noteq> None" by simp
  qed
qed

lemma alert_text_body_contains:
  "sublist (alert_count_sentence (length ts)) (alert_text_body e ts a)"
  "i < length ts \<Longrightarrow> sublist (alert_text_item e i (ts ! i)) (alert_text_body e ts a)"
proof -
  show "sublist (alert_count_sentence (length ts)) (alert_text_body e ts a)"
    unfolding alert_text_body_def by (rule sublist_appendI)
  assume "i < length ts"
  then have "sublist (alert_text_item e i (ts ! i)) (items_text (alert_text_item e) ts)"
    by (rule items_text_elem)
  then show "sublist (alert_text_item e i (ts ! i)) (alert_text_body e ts a)"
    unfolding alert_text_body_def
    by (intro sublist_append_l sublist_append_r)
qed

lemma summary_text_section_contains:
  assumes "rs \<noteq> []"
  shows "sublist (section_header c (length rs)) (summary_text_section e (k, c, rs))"
    and "i < length rs \<Longrightarrow>
         sublist (summary_text_item e i (rs ! i)) (summary_text_section e (k, c, rs))"
proof -
  have eq: "summary_text_section e (k, c, rs) =
              section_header c (length rs) @
              ((replicate 30 CHR ''-'' @ nl) @ items_text (summary_text_item e) rs)"
    using assms by (simp add: summary_text_section_def)
  show "sublist (section_header c (length rs)) (summary_text_section e (k, c, rs))"
    unfolding eq by (rule sublist_append_rightI)
  assume "i < length rs"
  then have "sublist (summary_text_item e i (rs ! i)) (items_text (summary_text_item e) rs)"
    by (rule items_text_elem)
  then show "sublist (summary_text_item e i (rs ! i)) (summary_text_section e (k, c, rs))"
    unfolding eq by (intro sublist_append_l)
qed

lemma summary_text_body_contains:
  assumes "(k, c, rs) \<in> set g" and "rs \<noteq> []"
  shows "sublist (section_header c (length rs)) (summary_text_body e g f u)"
    and "i < length rs \<Longrightarrow> sublist (summary_text_item e i (rs ! i)) (summary_text_body e g f u)"
proof -
  have sec: "sublist (summary_text_section e (k, c, rs)) (summary_text_body e g f u)"
    unfolding summary_text_body_def
    using sublist_concat_map [OF assms(1), of "summary_text_section e"]
    by (intro sublist_append_l sublist_append_r)
  show "sublist (section_header c (length rs)) (summary_text_body e g f u)"
    using summary_text_section_contains(1) [OF assms(2)] sec by (rule sublist_trans)
  assume "i < length rs"
  from summary_text_section_contains(2) [OF assms(2) this] sec
  show "sublist (summary_text_item e i (rs ! i)) (summary_text_body e g f u)"
    by (rule sublist_trans)
qed

lemma alert_html_description:
  assumes "generateAlertEmailHTML e ts a = Inr html" and "i < length ts"
  shows "\<exists>d. description (ts ! i) = Some d \<and> str_includes html (take 200 d)"
proof -
  have "Hole A_cards \<in> set alert_page_html" by (simp add: alert_page_html_def)
  from render_hole [OF assms(1) [unfolded generateAlertEmailHTML_def] this]
  obtain cards where cards: "render_tenders e alert_card_html ts = Inr cards"
    and sub: "sublist cards html" by auto
  have "Hole H_description_excerpt \<in> set alert_card_html" by (simp add: alert_card_html_def)
  from render_tenders_field [OF cards assms(2) this] obtain v
    where v: "tender_hole_value e i (ts ! i) H_description_excerpt = Inr v" "sublist v cards"
    by blast
  then show ?thesis using sub
    by (auto simp: str_includes_sublist split: option.splits intro: sublist_trans)
qed


section \<open>Facts about the example data\<close>

lemma replicate_numeral_eval: "replicate (numeral k) x = x # replicate (pred_numeral k) x"
  by (simp add: numeral_eq_Suc)

lemmas example_data_defs = example_env_def full_tender_def example_user_def owned_alert_def
  default_alert_def bare_tender_def road_tender_def roads_immediate_def roads_daily_def
  everything_daily_def bridges_daily_def
lemmas text_defs = generateAlertEmailText_def alert_page_text_def alert_item_text_def
  render_tenders_def enumerate_eq_zip base_url_def value_block_def value_text_def
  show_nat.simps char_of_def bit_Suc_0_iff replicate_numeral_eval
  generateSummaryEmailText_def summary_page_text_def summary_section_text_def
  summary_item_text_def render_section_def totalTenders_def greeting_name_def
  toUpperCase_def upper_char_def toLowerCase_def lower_char_def
lemmas html_defs = generateAlertEmailHTML_def alert_page_html_def alert_card_html_def
  value_html_def generateSummaryEmailHTML_def summary_page_html_def summary_zero_page_html_def
  summary_section_html_def summary_row_html_def

lemma road_tender_alert_html: "\<exists>h. generateAlertEmailHTML (example_env ok) [road_tender] a = Inr h"
  by (simp add: text_defs html_defs example_data_defs)

lemma road_tender_alert_text: "\<exists>x. generateAlertEmailText (example_env ok) [road_tender] a = Inr x"
  by (simp add: text_defs example_data_defs)

lemma road_tender_matches:
  "shouldTriggerForTender now roads_immediate road_tender = Inr True"
  "shouldTriggerForTender now roads_daily road_tender = Inr True"
  "shouldTriggerForTender now everything_daily road_tender = Inr True"
  "shouldTriggerForTender now bridges_daily road_tender = Inr False"
  by (simp_all add: example_data_defs matcher_defs char_eval)

lemma road_tender_matches_at:
  "trigger_at clk ph roads_daily road_tender = Inr True"
  "trigger_at clk ph everything_daily road_tender = Inr True"
  "trigger_at clk ph bridges_daily road_tender = Inr False"
  by (simp_all add: trigger_at_def road_tender_matches)

lemma example_users:
  "alert_user roads_immediate = Some (example_user ''u1'' True)"
  "alert_user roads_daily = Some (example_user ''u1'' True)"
  "alert_user everything_daily = Some (example_user ''u1'' True)"
  "alert_user bridges_daily = Some (example_user ''u2'' True)"
  "emailAlerts_enabled (example_user u True)"
  "user_id (example_user u b) = u"
  by (simp_all add: example_data_defs emailAlerts_enabled_def)

lemma sendImmediateAlert_rejected:
  "sendImmediateAlert (example_env False) u road_tender a = Inl DeliveryError"
proof -
  obtain h x where "generateAlertEmailHTML (example_env False) [road_tender] a = Inr h"
    and "generateAlertEmailText (example_env False) [road_tender] a = Inr x"
    using road_tender_alert_html road_tender_alert_text by blast
  then show ?thesis
    by (simp add: sendImmediateAlert_def sendAlertEmail_def sendMail_def Let_def example_env_def)
qed

lemma sendSummary_result:
  assumes "uniq \<noteq> []" and "groupTendersByAlert clk uniq cs = Inr g"
    and "generateSummaryEmailHTML e g (frequency_word f) u = Inr h"
    and "generateSummaryEmailText e g (frequency_word f) u = Inr x"
  shows "sendSummary e clk f (Some u) uniq cs =
           (case sendMail e \<lparr>mail_from = from_address e, mail_to = email u,
                              mail_subject = summary_subject f (length uniq),
                              mail_text = x, mail_html = h\<rparr> of
              Inl y \<Rightarrow> Inl y
            | Inr m \<Rightarrow> Inr (Some m))"
  using assms by (simp add: sendSummary_def sendSummaryEmail_def Let_def)

lemma road_tender_summary_html:
  "\<exists>h. generateSummaryEmailHTML (example_env ok) [(k1, c1, [road_tender])] f u = Inr h"
  "\<exists>h. generateSummaryEmailHTML (example_env ok)
          [(k1, c1, [road_tender]), (k2, c2, [road_tender])] f u = Inr h"
  by (simp_all add: text_defs html_defs example_data_defs)

lemma road_tender_summary_text:
  "\<exists>x. generateSummaryEmailText (example_env ok) [(k1, c1, [road_tender])] f u = Inr x"
  by (simp add: text_defs example_data_defs)


lemma example_ids:
  "alert_id roads_daily = ''d1''" "alert_id everything_daily = ''d2''"
  "alert_id bridges_daily = ''d3''" "tender_id road_tender = ''t1''"
  by (simp_all add: example_data_defs)

lemma example_groups:
  "groupTendersByAlert clk [road_tender] [roads_daily] = Inr [(''d1'', roads_daily, [road_tender])]"
  "groupTendersByAlert clk [road_tender] [roads_daily, everything_daily] =
     Inr [(''d1'', roads_daily, [road_tender]), (''d2'', everything_daily, [road_tender])]"
  by (simp_all add: groupTendersByAlert_def road_tender_matches_at example_ids)

lemma example_unique:
  "uniqueTenders clk [road_tender] [roads_daily] = Inr [road_tender]"
  "uniqueTenders clk [road_tender] [roads_daily, everything_daily] = Inr [road_tender]"
  "uniqueTenders clk [road_tender] [bridges_daily] = Inr []"
  by (simp_all add: uniqueTenders_def removeDuplicateTenders_def road_tender_matches_at)

lemma sendSummary_rejected:
  "sendSummary (example_env False) clk Daily (Some (example_user ''u1'' True)) [road_tender]
     [roads_daily] = Inl DeliveryError"
proof -
  obtain h x where
    "generateSummaryEmailHTML (example_env False) [(''d1'', roads_daily, [road_tender])]
       (frequency_word Daily) (example_user ''u1'' True) = Inr h"
    "generateSummaryEmailText (example_env False) [(''d1'', roads_daily, [road_tender])]
       (frequency_word Daily) (example_user ''u1'' True) = Inr x"
    using road_tender_summary_html(1) road_tender_summary_text by blast
  from sendSummary_result [OF _ example_groups(1) this] show ?thesis
    by (simp add: example_env_def sendMail_def)
qed

section \<open>The summary runs: deduplication, statistics and failures\<close>

subsection \<open>C1: one record matched by two configurations of an owner\<close>







subsection \<open>C2: a failed dispatch\<close>

lemma process_alert_send_fails:
  assumes "alert_user a = Some u" and "emailAlerts_enabled u"
    and "shouldTriggerForTender now a t = Inr True"
    and "enabled (emailSettings a)" and "freq (emailSettings a) = Immediate"
    and "sendImmediateAlert e u t (updateStats now a t) = Inl x"
  shows "process_alert e now t a st =
           (updateStats now a t,
            (push_error (AlertError (alert_id a) ''email'' x) st)\<lparr>processed := processed st + 1\<rparr>)"
proof -
  have "enabled (emailSettings (updateStats now a t))"
    "freq (emailSettings (updateStats now a t)) = Immediate"
    using assms(4,5) by (simp_all add: updateStats_def)
  then show ?thesis using assms(1,2,3,6)
    by (simp add: process_alert_def Let_def)
qed

text \<open>
  C2 as stated (after a failed dispatch the statistics of the configuration are not
  updated) fails in the immediate run: \<open>updateStats\<close> is called before the send, so with
  a transporter that rejects the message the error is logged and \<open>totalMatches\<close> and
  \<open>lastMatchedTender\<close> are updated all the same.
\<close>

theorem immediate_failure_updates_match_stats_counterexample:
  "processTenderAlerts (example_env False) 0 road_tender [roads_immediate] =
     ([updateStats 0 roads_immediate road_tender],
      \<lparr>processed = 1, results_emailsSent = 0,
       errors = Some [AlertError ''a1'' ''email'' DeliveryError], outbox = []\<rparr>) \<and>
   totalMatches (alert_stats roads_immediate) = 0 \<and>
   totalMatches (alert_stats (updateStats 0 roads_immediate road_tender)) = 1 \<and>
   lastMatchedTender (alert_stats (updateStats 0 roads_immediate road_tender)) = Some ''t1''"
proof -
  have sel: "findImmediateAlerts [roads_immediate] = [roads_immediate]"
    by (simp add: findImmediateAlerts_def example_data_defs)
  have en: "enabled (emailSettings roads_immediate)" "freq (emailSettings roads_immediate) = Immediate"
    "alert_id roads_immediate = ''a1''" "totalMatches (alert_stats roads_immediate) = 0"
    by (simp_all add: example_data_defs)
  have "process_alert (example_env False) 0 road_tender roads_immediate results_init =
     (updateStats 0 roads_immediate road_tender,
      (push_error (AlertError (alert_id roads_immediate) ''email'' DeliveryError) results_init)
        \<lparr>processed := processed results_init + 1\<rparr>)"
    by (rule process_alert_send_fails
          [OF example_users(1) example_users(5) road_tender_matches(1) en(1,2)
              sendImmediateAlert_rejected])
  then have "processTenderAlerts (example_env False) 0 road_tender [roads_immediate] =
     ([updateStats 0 roads_immediate road_tender],
      \<lparr>processed = 1, results_emailsSent = 0,
       errors = Some [AlertError ''a1'' ''email'' DeliveryError], outbox = []\<rparr>)"
    by (simp add: processTenderAlerts_def sel Let_def en(3) push_error_def results_init_def)
  moreover have "totalMatches (alert_stats (updateStats 0 roads_immediate road_tender)) = 1"
    "lastMatchedTender (alert_stats (updateStats 0 roads_immediate road_tender)) = Some ''t1''"
    by (simp_all add: updateStats_def en(4)) (simp add: example_data_defs)
  ultimately show ?thesis using en(4) by simp
qed

text \<open>
  C2, amended: when the dispatch to one recipient fails, the failure is appended to the
  error list of the run and the loop goes on with the remaining recipients. In an immediate
  run the match statistics of the configuration (\<open>totalMatches\<close>, \<open>lastMatchedTender\<close>,
  \<open>lastMatchedAt\<close>) have been recorded before the send and stay; \<open>emailsSent\<close> and
  \<open>lastSentAt\<close> are not updated, they follow a confirmed send only. In a daily or weekly
  run no document of the owner is changed.
\<close>

theorem dispatch_failure_isolated:
  "(alert_user a = Some u \<and> emailAlerts_enabled u \<and>
    shouldTriggerForTender now a t = Inr True \<and>
    enabled (emailSettings a) \<and> freq (emailSettings a) = Immediate \<and>
    sendImmediateAlert e u t (updateStats now a t) = Inl x \<longrightarrow>
      process_alerts e now t (a # as) st =
        (updateStats now a t #
           fst (process_alerts e now t as
                  ((push_error (AlertError (alert_id a) ''email'' x) st)
                     \<lparr>processed := processed st + 1\<rparr>)),
         snd (process_alerts e now t as
                ((push_error (AlertError (alert_id a) ''email'' x) st)
                   \<lparr>processed := processed st + 1\<rparr>))) \<and>
      emailsSent (alert_stats (updateStats now a t)) = emailsSent (alert_stats a) \<and>
      lastSentAt (emailSettings (updateStats now a t)) = lastSentAt (emailSettings a) \<and>
      totalMatches (alert_stats (updateStats now a t)) = totalMatches (alert_stats a) + 1) \<and>
   (alerts \<noteq> [] \<and> uniqueTenders clk recent alerts = Inr uniq \<and> uniq \<noteq> [] \<and>
    sendSummary e clk f (alert_user (hd alerts)) uniq alerts = Inl y \<longrightarrow>
      process_users e clk f recent ((uid, alerts) # gs) st' =
        ((uid, alerts) #
           fst (process_users e clk f recent gs
                  (push_error (UserError uid (summary_type f) y) st')),
         snd (process_users e clk f recent gs
                (push_error (UserError uid (summary_type f) y) st'))))"
proof (intro conjI impI)
  assume h: "alert_user a = Some u \<and> emailAlerts_enabled u \<and>
    shouldTriggerForTender now a t = Inr True \<and>
    enabled (emailSettings a) \<and> freq (emailSettings a) = Immediate \<and>
    sendImmediateAlert e u t (updateStats now a t) = Inl x"
  then have "process_alert e now t a st =
           (updateStats now a t,
            (push_error (AlertError (alert_id a) ''email'' x) st)\<lparr>processed := processed st + 1\<rparr>)"
    using process_alert_send_fails [of a u now t e x st] by blast
  then show "process_alerts e now t (a # as) st =
        (updateStats now a t #
           fst (process_alerts e now t as
                  ((push_error (AlertError (alert_id a) ''email'' x) st)
                     \<lparr>processed := processed st + 1\<rparr>)),
         snd (process_alerts e now t as
                ((push_error (AlertError (alert_id a) ''email'' x) st)
                   \<lparr>processed := processed st + 1\<rparr>)))"
    by (simp add: process_alerts_Cons del: process_alerts.simps(2))
  show "emailsSent (alert_stats (updateStats now a t)) = emailsSent (alert_stats a)"
    "lastSentAt (emailSettings (updateStats now a t)) = lastSentAt (emailSettings a)"
    "totalMatches (alert_stats (updateStats now a t)) = totalMatches (alert_stats a) + 1"
    by (simp_all add: updateStats_def)
next
  assume h: "alerts \<noteq> [] \<and> uniqueTenders clk recent alerts = Inr uniq \<and> uniq \<noteq> [] \<and>
    sendSummary e clk f (alert_user (hd alerts)) uniq alerts = Inl y"
  then have "process_user e clk f recent (uid, alerts) st' =
           ((uid, alerts), push_error (UserError uid (summary_type f) y) st')"
    using process_user_send_fails [of alerts clk recent uniq e f y uid st'] by blast
  then show "process_users e clk f recent ((uid, alerts) # gs) st' =
        ((uid, alerts) #
           fst (process_users e clk f recent gs
                  (push_error (UserError uid (summary_type f) y) st')),
         snd (process_users e clk f recent gs
                (push_error (UserError uid (summary_type f) y) st')))"
    by (simp add: process_users_Cons del: process_users.simps(2))
qed

theorem dispatch_failure_isolated_witness:
  "process_alerts (example_env False) 0 road_tender [roads_immediate] results_init =
     ([updateStats 0 roads_immediate road_tender],
      (push_error (AlertError ''a1'' ''email'' DeliveryError) results_init)\<lparr>processed := 1\<rparr>) \<and>
   emailsSent (alert_stats (updateStats 0 roads_immediate road_tender)) = 0 \<and>
   totalMatches (alert_stats (updateStats 0 roads_immediate road_tender)) = 1 \<and>
   process_users (example_env False) (steady 0) Daily [road_tender] [(''u1'', [roads_daily])]
       results_init =
     ([(''u1'', [roads_daily])],
      push_error (UserError ''u1'' ''daily_summary'' DeliveryError) results_init)"
proof -
  have en: "enabled (emailSettings roads_immediate)" "freq (emailSettings roads_immediate) = Immediate"
    "alert_id roads_immediate = ''a1''" "totalMatches (alert_stats roads_immediate) = 0"
    "emailsSent (alert_stats roads_immediate) = 0"
    by (simp_all add: example_data_defs)
  note th = dispatch_failure_isolated
    [of roads_immediate "example_user ''u1'' True" 0 road_tender "example_env False"
        DeliveryError "[]" results_init
        "[roads_daily]" "steady 0" "[road_tender]" "[road_tender]" Daily DeliveryError "''u1''"
        "[]" results_init]
  have a: "process_alerts (example_env False) 0 road_tender [roads_immediate] results_init =
     ([updateStats 0 roads_immediate road_tender],
      (push_error (AlertError ''a1'' ''email'' DeliveryError) results_init)\<lparr>processed := 1\<rparr>)"
    and s: "emailsSent (alert_stats (updateStats 0 roads_immediate road_tender)) = 0"
    and m: "totalMatches (alert_stats (updateStats 0 roads_immediate road_tender)) = 1"
    using th [THEN conjunct1] example_users(1,5) road_tender_matches(1) en
      sendImmediateAlert_rejected
    by (simp_all add: results_init_def del: process_alerts.simps(2))
  have b: "process_users (example_env False) (steady 0) Daily [road_tender]
        [(''u1'', [roads_daily])] results_init =
     ([(''u1'', [roads_daily])],
      push_error (UserError ''u1'' ''daily_summary'' DeliveryError) results_init)"
    using th [THEN conjunct2] example_unique(1) example_users(2) sendSummary_rejected
    by (simp del: process_users.simps(2))
  from a s m b show ?thesis by (simp del: process_users.simps(2) process_alerts.simps(2))
qed

subsection \<open>C7: an owner without a match\<close>

lemma processSummaries_returns:
  "groupAlertsByUser A = Inr g \<Longrightarrow> \<exists>docs st. processSummaries e clk f A recent = Inr (docs, st)"
  by (simp add: processSummaries_def split: prod.splits)

text \<open>
  C7: in a daily run that returns, for an owner whose deduplicated match set is empty,
  every configuration of the owner is among the documents after the run as it was before
  (so \<open>totalMatches\<close>, \<open>emailsSent\<close>, \<open>lastMatchedTender\<close>, \<open>lastMatchedAt\<close> and
  \<open>lastSentAt\<close> are unchanged), and the messages sent and the sent count are those of the
  run over the collection without the owner's configurations: no message is sent for the
  owner.
\<close>

theorem daily_run_owner_without_match:
  assumes "processDailySummaries e clk tm coll recent = Inr (docs, st)"
    and "uniqueTenders clk recent (filter (owner_is uid) (findDailyAlerts tm coll)) = Inr []"
  shows "(\<forall>a\<in>set (findDailyAlerts tm coll). owner_is uid a \<longrightarrow> a \<in> set docs) \<and>
         (\<exists>docs' st'.
            processDailySummaries e clk tm (filter (\<lambda>a. \<not> owner_is uid a) coll) recent =
              Inr (docs', st') \<and>
            outbox st' = outbox st \<and> results_emailsSent st' = results_emailsSent st)"
  using processSummaries_without_owner
          [OF assms(1) [unfolded processDailySummaries_def] assms(2)]
  by (simp add: processDailySummaries_def findDailyAlerts_filter)

theorem daily_run_owner_without_match_witness:
  "uniqueTenders (steady 0) [road_tender]
     (filter (owner_is ''u2'') (findDailyAlerts ''09:00'' [bridges_daily, roads_daily])) = Inr [] \<and>
   bridges_daily \<in>
     set (fst (projr (processDailySummaries (example_env True) (steady 0) ''09:00''
                        [bridges_daily, roads_daily] [road_tender]))) \<and>
   outbox (snd (projr (processDailySummaries (example_env True) (steady 0) ''09:00''
                         [roads_daily] [road_tender]))) =
   outbox (snd (projr (processDailySummaries (example_env True) (steady 0) ''09:00''
                         [bridges_daily, roads_daily] [road_tender])))"
proof -
  have sel: "findDailyAlerts ''09:00'' [bridges_daily, roads_daily] = [bridges_daily, roads_daily]"
    by (simp add: findDailyAlerts_def example_data_defs)
  have own: "owner_is ''u2'' bridges_daily" "\<not> owner_is ''u2'' roads_daily"
    by (simp_all add: owner_is_def example_users)
  have none: "uniqueTenders (steady 0) [road_tender]
     (filter (owner_is ''u2'') (findDailyAlerts ''09:00'' [bridges_daily, roads_daily])) = Inr []"
    by (simp add: sel own example_unique(3))
  have "groupAlertsByUser [bridges_daily, roads_daily] =
          Inr [(''u2'', [bridges_daily]), (''u1'', [roads_daily])]"
    by (simp add: groupAlertsByUser_def example_users)
  from processSummaries_returns [OF this]
  obtain docs st where run:
    "processDailySummaries (example_env True) (steady 0) ''09:00'' [bridges_daily, roads_daily]
       [road_tender] = Inr (docs, st)"
    unfolding processDailySummaries_def sel by blast
  from daily_run_owner_without_match [OF run none]
  have "bridges_daily \<in> set docs"
    and "\<exists>docs' st'.
           processDailySummaries (example_env True) (steady 0) ''09:00'' [roads_daily] [road_tender] =
             Inr (docs', st') \<and> outbox st' = outbox st"
    using own by (auto simp: sel)
  then show ?thesis using run none by auto
qed

section \<open>The rendered bodies: what the text carries\<close>

subsection \<open>C9: text and HTML\<close>

text \<open>
  C9 as stated (every fact of the HTML body is also in the text body) fails: the card of
  an immediate alert shows the first 200 characters of the description, the text item has
  no description line.
\<close>

theorem text_lacks_description_counterexample:
  "(case generateAlertEmailHTML (example_env True) [road_tender] roads_immediate of
      Inl x \<Rightarrow> False
    | Inr html \<Rightarrow> str_includes html ''Paving of the B12 road'') \<and>
   (case generateAlertEmailText (example_env True) [road_tender] roads_immediate of
      Inl x \<Rightarrow> False
    | Inr txt \<Rightarrow> \<not> str_includes txt ''Paving of the B12 road'')"
proof -
  obtain h where h: "generateAlertEmailHTML (example_env True) [road_tender] roads_immediate = Inr h"
    using road_tender_alert_html by blast
  from alert_html_description [OF h, of 0]
  have "str_includes h ''Paving of the B12 road''"
    by (simp add: road_tender_def full_tender_def)
  then have "(case generateAlertEmailHTML (example_env True) [road_tender] roads_immediate of
      Inl x \<Rightarrow> False
    | Inr html \<Rightarrow> str_includes html ''Paving of the B12 road'')"
    by (simp add: h)
  moreover have "(case generateAlertEmailText (example_env True) [road_tender] roads_immediate of
      Inl x \<Rightarrow> False
    | Inr txt \<Rightarrow> \<not> str_includes txt ''Paving of the B12 road'')"
    by (simp add: text_defs example_data_defs)
  ultimately show ?thesis by simp
qed

text \<open>
  C9, amended. A text body that renders is, character for character, the body written out
  in \<open>alert_text_body\<close> and \<open>summary_text_body\<close>. For an immediate alert: the line with the
  name of the configuration, the sentence "We found \<open>n\<close> new tender(s) that match(es) your
  criteria:" with the number of records, then for each record the numbered lines with its
  title, category, organization name and type, district and province, closing date (as
  \<open>toLocaleDateString()\<close> gives it), value estimate (when present) and link. For a summary:
  the line with the frequency, the greeting, then for each section with records the line
  "\<open>name\<close> (\<open>n\<close> matches)" and for each record the numbered lines with its title,
  organization name, district and province, closing date and link. Every record of a body
  that renders has an organization, a location and dates.

  Template by template (card and item, row and item, section, page, value block), every
  fact that the HTML inserts is inserted by the text as well, possibly in another format,
  with two exceptions, which are in the HTML only: the description excerpt of the card of
  an immediate alert, and the total match count in the header of a summary.
\<close>

theorem text_body_carries_fields:
  "(generateAlertEmailText e ts a = Inr txt \<longrightarrow>
      txt = alert_text_body e ts a \<and>
      str_includes txt (alert_count_sentence (length ts)) \<and>
      (\<forall>i<length ts. str_includes txt (alert_text_item e i (ts ! i))) \<and>
      (\<forall>t\<in>set ts. organization t \<noteq> None \<and> location t \<noteq> None \<and> dates t \<noteq> None)) \<and>
   (generateSummaryEmailText e g f u = Inr txt' \<longrightarrow>
      txt' = summary_text_body e g f u \<and>
      (\<forall>(k, c, rs)\<in>set g.
         (rs \<noteq> [] \<longrightarrow>
            str_includes txt' (section_header c (length rs)) \<and>
            (\<forall>i<length rs. str_includes txt' (summary_text_item e i (rs ! i)))) \<and>
         (\<forall>t\<in>set rs. organization t \<noteq> None \<and> location t \<noteq> None \<and> dates t \<noteq> None))) \<and>
   facts_of tender_fact alert_card_html - {Description} \<subseteq> facts_of tender_fact alert_item_text \<and>
   Description \<in> facts_of tender_fact alert_card_html \<and>
   Description \<notin> facts_of tender_fact alert_item_text \<and>
   facts_of value_fact value_html \<subseteq> facts_of value_fact value_text \<and>
   facts_of alert_fact alert_page_html \<subseteq> facts_of alert_fact alert_page_text \<and>
   facts_of tender_fact summary_row_html \<subseteq> facts_of tender_fact summary_item_text \<and>
   facts_of section_fact summary_section_html \<subseteq> facts_of section_fact summary_section_text \<and>
   facts_of summary_fact summary_page_html - {Total_count} \<subseteq>
     facts_of summary_fact summary_page_text \<and>
   Total_count \<in> facts_of summary_fact summary_page_html \<and>
   Total_count \<notin> facts_of summary_fact summary_page_text \<and>
   facts_of summary_fact summary_zero_page_html \<subseteq> facts_of summary_fact summary_page_text"
proof -
  have alert: "generateAlertEmailText e ts a = Inr txt \<longrightarrow>
      txt = alert_text_body e ts a \<and>
      str_includes txt (alert_count_sentence (length ts)) \<and>
      (\<forall>i<length ts. str_includes txt (alert_text_item e i (ts ! i))) \<and>
      (\<forall>t\<in>set ts. organization t \<noteq> None \<and> location t \<noteq> None \<and> dates t \<noteq> None)"
  proof (intro impI conjI allI)
    assume r: "generateAlertEmailText e ts a = Inr txt"
    show eq: "txt = alert_text_body e ts a" using r by (rule alert_text_eq(1))
    show "str_includes txt (alert_count_sentence (length ts))"
      unfolding eq str_includes_sublist by (rule alert_text_body_contains(1))
    show "\<forall>t\<in>set ts. organization t \<noteq> None \<and> location t \<noteq> None \<and> dates t \<noteq> None"
      using r by (rule alert_text_eq(2))
    fix i assume "i < length ts"
    then show "str_includes txt (alert_text_item e i (ts ! i))"
      unfolding eq str_includes_sublist by (rule alert_text_body_contains(2))
  qed
  have summary: "generateSummaryEmailText e g f u = Inr txt' \<longrightarrow>
      txt' = summary_text_body e g f u \<and>
      (\<forall>(k, c, rs)\<in>set g.
         (rs \<noteq> [] \<longrightarrow>
            str_includes txt' (section_header c (length rs)) \<and>
            (\<forall>i<length rs. str_includes txt' (summary_text_item e i (rs ! i)))) \<and>
         (\<forall>t\<in>set rs. organization t \<noteq> None \<and> location t \<noteq> None \<and> dates t \<noteq> None))"
  proof (intro impI conjI)
    assume r: "generateSummaryEmailText e g f u = Inr txt'"
    show eq: "txt' = summary_text_body e g f u" using r by (rule summary_text_eq(1))
    show "\<forall>(k, c, rs)\<in>set g.
         (rs \<noteq> [] \<longrightarrow>
            str_includes txt' (section_header c (length rs)) \<and>
            (\<forall>i<length rs. str_includes txt' (summary_text_item e i (rs ! i)))) \<and>
         (\<forall>t\<in>set rs. organization t \<noteq> None \<and> location t \<noteq> None \<and> dates t \<noteq> None)"
    proof (clarify, intro conjI impI allI)
      fix k c rs assume m: "(k, c, rs) \<in> set g"
      show "\<forall>t\<in>set rs. organization t \<noteq> None \<and> location t \<noteq> None \<and> dates t \<noteq> None"
        using summary_text_eq(2) [OF r] m by blast
      assume ne: "rs \<noteq> []"
      show "str_includes txt' (section_header c (length rs))"
        unfolding eq str_includes_sublist using m ne by (rule summary_text_body_contains(1))
      fix i assume "i < length rs"
      with m ne show "str_includes txt' (summary_text_item e i (rs ! i))"
        unfolding eq str_includes_sublist by (rule summary_text_body_contains(2))
    qed
  qed
  have card: "facts_of tender_fact alert_card_html - {Description} \<subseteq>
                facts_of tender_fact alert_item_text"
    "Description \<in> facts_of tender_fact alert_card_html"
    "Description \<notin> facts_of tender_fact alert_item_text"
    by (auto simp: facts_of_def alert_card_html_def alert_item_text_def)
  have val: "facts_of value_fact value_html \<subseteq> facts_of value_fact value_text"
    by (simp add: facts_of_def value_html_def value_text_def)
  have page: "facts_of alert_fact alert_page_html \<subseteq> facts_of alert_fact alert_page_text"
    by (simp add: facts_of_def alert_page_html_def alert_page_text_def)
  have row: "facts_of tender_fact summary_row_html \<subseteq> facts_of tender_fact summary_item_text"
    by (simp add: facts_of_def summary_row_html_def summary_item_text_def)
  have sec: "facts_of section_fact summary_section_html \<subseteq>
               facts_of section_fact summary_section_text"
    by (simp add: facts_of_def summary_section_html_def summary_section_text_def)
  have spage: "facts_of summary_fact summary_page_html - {Total_count} \<subseteq>
                 facts_of summary_fact summary_page_text"
    "Total_count \<in> facts_of summary_fact summary_page_html"
    "Total_count \<notin> facts_of summary_fact summary_page_text"
    by (auto simp: facts_of_def summary_page_html_def summary_page_text_def)
  have zero: "facts_of summary_fact summary_zero_page_html \<subseteq>
                facts_of summary_fact summary_page_text"
    by (simp add: facts_of_def summary_zero_page_html_def summary_page_text_def)
  from alert summary card val page row sec spage zero show ?thesis by blast
qed

theorem text_body_carries_fields_witness:
  "generateAlertEmailText (example_env True) [road_tender] roads_immediate =
     Inr (alert_text_body (example_env True) [road_tender] roads_immediate) \<and>
   str_includes (alert_text_body (example_env True) [road_tender] roads_immediate)
     (''We found 1 new tender that matches your criteria:'' @ nl) \<and>
   str_includes (alert_text_body (example_env True) [road_tender] roads_immediate)
     (''1. Road works'' @ nl @
      ''   Category: Construction'' @ nl @
      ''   Organization: RDA (government)'' @ nl @
      ''   Location: Colombo, Western Province'' @ nl @
      ''   Closing Date: 1/15/2026'' @ nl @
      ''   Link: https://lankatender.com/tenders/t1'' @ nl @ nl) \<and>
   generateSummaryEmailText (example_env True) [(''d1'', roads_daily, [road_tender])] ''daily''
       (example_user ''u1'' True) =
     Inr (summary_text_body (example_env True) [(''d1'', roads_daily, [road_tender])] ''daily''
            (example_user ''u1'' True)) \<and>
   str_includes (summary_text_body (example_env True) [(''d1'', roads_daily, [road_tender])]
                   ''daily'' (example_user ''u1'' True))
     (''Roads (1 matches)'' @ nl) \<and>
   str_includes (summary_text_body (example_env True) [(''d1'', roads_daily, [road_tender])]
                   ''daily'' (example_user ''u1'' True))
     (''1. Road works'' @ nl @
      ''   RDA'' @ nl @
      ''   Colombo, Western Province'' @ nl @
      ''   Closes: 1/15/2026'' @ nl @
      ''   Link: https://lankatender.com/tenders/t1'' @ nl @ nl)"
proof -
  let ?e = "example_env True"
  let ?g = "[(''d1'', roads_daily, [road_tender])]"
  let ?u = "example_user ''u1'' True"
  obtain x where x: "generateAlertEmailText ?e [road_tender] roads_immediate = Inr x"
    using road_tender_alert_text by blast
  obtain y where y: "generateSummaryEmailText ?e ?g ''daily'' ?u = Inr y"
    using road_tender_summary_text by blast
  note th = text_body_carries_fields [of ?e "[road_tender]" roads_immediate x ?g "''daily''" ?u y]
  note alert = th [THEN conjunct1, THEN mp, OF x]
  note summary = th [THEN conjunct2, THEN conjunct1, THEN mp, OF y]
  have xe: "x = alert_text_body ?e [road_tender] roads_immediate"
    using alert by (rule conjunct1)
  have x1: "str_includes x (alert_count_sentence (length [road_tender]))"
    using alert [THEN conjunct2] by (rule conjunct1)
  have x2': "str_includes x (alert_text_item ?e 0 road_tender)"
    using alert [THEN conjunct2, THEN conjunct2, THEN conjunct1] by simp
  have ye: "y = summary_text_body ?e ?g ''daily'' ?u"
    using summary by (rule conjunct1)
  have y1: "str_includes y (section_header roads_daily (length [road_tender]))"
    and y2': "str_includes y (summary_text_item ?e 0 road_tender)"
    using summary [THEN conjunct2] by simp_all
  have s1: "alert_count_sentence (length [road_tender]) =
              ''We found 1 new tender that matches your criteria:'' @ nl"
    by (simp add: alert_count_sentence_def show_nat.simps char_of_def bit_Suc_0_iff)
  have s2: "alert_text_item ?e 0 road_tender =
     ''1. Road works'' @ nl @
      ''   Category: Construction'' @ nl @
      ''   Organization: RDA (government)'' @ nl @
      ''   Location: Colombo, Western Province'' @ nl @
      ''   Closing Date: 1/15/2026'' @ nl @
      ''   Link: https://lankatender.com/tenders/t1'' @ nl @ nl"
    by (simp add: alert_text_item_def value_lines_def base_url_def example_data_defs
                  show_nat.simps char_of_def bit_Suc_0_iff)
  have s3: "section_header roads_daily (length [road_tender]) = ''Roads (1 matches)'' @ nl"
    by (simp add: section_header_def example_data_defs show_nat.simps char_of_def bit_Suc_0_iff)
  have s4: "summary_text_item ?e 0 road_tender =
     ''1. Road works'' @ nl @
      ''   RDA'' @ nl @
      ''   Colombo, Western Province'' @ nl @
      ''   Closes: 1/15/2026'' @ nl @
      ''   Link: https://lankatender.com/tenders/t1'' @ nl @ nl"
    by (simp add: summary_text_item_def base_url_def example_data_defs
                  show_nat.simps char_of_def bit_Suc_0_iff)
  show ?thesis
    using x y x1 x2' y1 y2' unfolding s1 s2 s3 s4 xe [symmetric] ye [symmetric] by simp
qed

section \<open>The eligibility queries\<close>

subsection \<open>C6: the weekly eligibility\<close>

text \<open>
  C6 as stated (a weekly configuration is selected when it was last sent at least 7 days
  before the run) fails when the clocks of the process time zone were put forward between
  the two instants: the cut-off is the same local time seven calendar days earlier, which
  is then 167 hours before the run, and a configuration last sent 167 hours and 30 minutes
  (603000000 ms) before the run, less than 7 days, is selected. Here the zone goes from
  UTC to UTC+1 on day 5 and the run is on day 10.
\<close>

theorem weekly_cutoff_daylight_saving_counterexample:
  "weekly_alert ''a1'' (Some (10 * day_ms - 603000000)) \<in>
     set (findWeeklyAlerts (switching_zone (5 * day_ms) 0 3600000) (10 * day_ms)
            [weekly_alert ''a1'' (Some (10 * day_ms - 603000000))]) \<and>
   10 * day_ms - (10 * day_ms - 603000000) < 7 * day_ms"
  by (simp add: findWeeklyAlerts_def oneWeekAgo_def localTime_def utcTime_def
                switching_zone_def weekly_alert_def default_alert_def day_ms_def)

text \<open>
  C6, amended: \<open>findWeeklyAlerts\<close> selects exactly the configurations of the collection
  that are active, email-enabled and of weekly frequency and that were never sent or were
  last sent not later than the same local time seven calendar days before the run, in the
  time zone of the process. That cut-off is 7 times 24 hours before the run when the
  offset of the zone is the same at both ends, and otherwise differs from it by the change
  of the offset: when the offset changed by at most a day, a configuration last sent 3 days
  before the run is excluded and one last sent 8 days before the run is included.
\<close>

theorem findWeeklyAlerts_selects:
  "(a \<in> set (findWeeklyAlerts tz now coll) \<longleftrightarrow>
      a \<in> set coll \<and> isActive a \<and> enabled (emailSettings a) \<and>
      freq (emailSettings a) = Weekly \<and>
      (lastSentAt (emailSettings a) = None \<or>
       (\<exists>s. lastSentAt (emailSettings a) = Some s \<and> s \<le> oneWeekAgo tz now))) \<and>
   oneWeekAgo tz now =
     now - 7 * day_ms + (tz now True - tz (localTime tz now - 7 * day_ms) False) \<and>
   (tz (localTime tz now - 7 * day_ms) False = tz now True \<longrightarrow>
      oneWeekAgo tz now = now - 7 * day_ms) \<and>
   (\<bar>tz now True - tz (localTime tz now - 7 * day_ms) False\<bar> \<le> day_ms \<longrightarrow>
      \<not> now - 3 * day_ms \<le> oneWeekAgo tz now \<and> now - 8 * day_ms \<le> oneWeekAgo tz now)"
proof (intro conjI impI)
  show "a \<in> set (findWeeklyAlerts tz now coll) \<longleftrightarrow>
      a \<in> set coll \<and> isActive a \<and> enabled (emailSettings a) \<and>
      freq (emailSettings a) = Weekly \<and>
      (lastSentAt (emailSettings a) = None \<or>
       (\<exists>s. lastSentAt (emailSettings a) = Some s \<and> s \<le> oneWeekAgo tz now))"
    by (cases "lastSentAt (emailSettings a)") (auto simp: findWeeklyAlerts_def)
  show eq: "oneWeekAgo tz now =
     now - 7 * day_ms + (tz now True - tz (localTime tz now - 7 * day_ms) False)"
    by (simp add: oneWeekAgo_def localTime_def utcTime_def)
  show "oneWeekAgo tz now = now - 7 * day_ms"
    if "tz (localTime tz now - 7 * day_ms) False = tz now True"
    using that unfolding eq by simp
  assume b: "\<bar>tz now True - tz (localTime tz now - 7 * day_ms) False\<bar> \<le> day_ms"
  have pos: "0 < day_ms" by (simp add: day_ms_def)
  show "\<not> now - 3 * day_ms \<le> oneWeekAgo tz now" using b pos unfolding eq by linarith
  show "now - 8 * day_ms \<le> oneWeekAgo tz now" using b pos unfolding eq by linarith
qed

theorem findWeeklyAlerts_selects_witness:
  "weekly_alert ''a3'' (Some (10 * day_ms - 3 * day_ms)) \<notin>
     set (findWeeklyAlerts (fixed_zone 19800000) (10 * day_ms)
            [weekly_alert ''a3'' (Some (10 * day_ms - 3 * day_ms)),
             weekly_alert ''a8'' (Some (10 * day_ms - 8 * day_ms)),
             weekly_alert ''a0'' None]) \<and>
   weekly_alert ''a8'' (Some (10 * day_ms - 8 * day_ms)) \<in>
     set (findWeeklyAlerts (fixed_zone 19800000) (10 * day_ms)
            [weekly_alert ''a3'' (Some (10 * day_ms - 3 * day_ms)),
             weekly_alert ''a8'' (Some (10 * day_ms - 8 * day_ms)),
             weekly_alert ''a0'' None]) \<and>
   weekly_alert ''a0'' None \<in>
     set (findWeeklyAlerts (fixed_zone 19800000) (10 * day_ms)
            [weekly_alert ''a3'' (Some (10 * day_ms - 3 * day_ms)),
             weekly_alert ''a8'' (Some (10 * day_ms - 8 * day_ms)),
             weekly_alert ''a0'' None]) \<and>
   oneWeekAgo (fixed_zone 19800000) (10 * day_ms) = 10 * day_ms - 7 * day_ms"
proof -
  let ?tz = "fixed_zone 19800000"
  let ?coll = "[weekly_alert ''a3'' (Some (10 * day_ms - 3 * day_ms)),
                weekly_alert ''a8'' (Some (10 * day_ms - 8 * day_ms)),
                weekly_alert ''a0'' None]"
  have same: "?tz (localTime ?tz (10 * day_ms) - 7 * day_ms) False = ?tz (10 * day_ms) True"
    by (simp add: fixed_zone_def)
  have cut: "oneWeekAgo ?tz (10 * day_ms) = 10 * day_ms - 7 * day_ms"
    using findWeeklyAlerts_selects [of "weekly_alert ''a0'' None" ?tz "10 * day_ms" ?coll] same
    by simp
  show ?thesis
    using
      findWeeklyAlerts_selects
        [of "weekly_alert ''a3'' (Some (10 * day_ms - 3 * day_ms))" ?tz "10 * day_ms" ?coll]
      findWeeklyAlerts_selects
        [of "weekly_alert ''a8'' (Some (10 * day_ms - 8 * day_ms))" ?tz "10 * day_ms" ?coll]
      findWeeklyAlerts_selects
        [of "weekly_alert ''a0'' None" ?tz "10 * day_ms" ?coll]
    unfolding cut
    by (simp add: weekly_alert_def default_alert_def day_ms_def)
qed

section \<open>Re-entrancy\<close>

subsection \<open>C8: overlapping executions\<close>

lemma queue_inv_step: "queue_inv q \<Longrightarrow> queue_inv (queue_step q ev)"
  by (cases ev) (auto simp: queue_inv_def processQueue_enter_def Let_def)

lemma queue_inv_foldl: "queue_inv q \<Longrightarrow> queue_inv (foldl queue_step q evs)"
  by (induction evs arbitrary: q) (auto simp: queue_inv_step)

text \<open>
  C8 as stated (a second trigger of the same named job before the first run has completed
  is queued or skipped, so that at most one execution of the job is in flight) fails: the
  cron callback and the manual trigger of a named job call the run at once and test no
  flag, so two triggers of \<open>daily-09:00\<close> leave two executions in flight.
\<close>

theorem named_job_overlap_counterexample:
  "jobs_run [Trigger ''daily-09:00'', Trigger ''daily-09:00''] ''daily-09:00'' = 2"
  by (simp add: jobs_run_def)

text \<open>
  C8, amended: what the code serializes is the processing queue. Whatever the order of the
  calls of \<open>queueTenderForProcessing\<close> and \<open>processQueue\<close> and of the resumptions of a
  drain, at most one drain of the queue is in flight, and \<open>isProcessing\<close> is set exactly
  while one is: a call that arrives during a drain queues its record (or returns) and
  starts no second drain.
\<close>

theorem queue_drain_serialized:
  "draining (queue_run evs) \<le> 1 \<and>
   (isProcessing (queue_run evs) \<longleftrightarrow> draining (queue_run evs) = 1)"
proof -
  have "queue_inv queue_init" by (simp add: queue_inv_def queue_init_def)
  then have "queue_inv (queue_run evs)" unfolding queue_run_def by (rule queue_inv_foldl)
  then show ?thesis by (simp add: queue_inv_def)
qed

theorem queue_drain_serialized_witness:
  "queue_run [Call_queueTender (bare_tender ''t1'' ''A''),
              Call_queueTender (bare_tender ''t2'' ''B''), Call_processQueue] =
     \<lparr>processingQueue = [bare_tender ''t2'' ''B''], isProcessing = True, draining = 1\<rparr> \<and>
   draining (queue_run [Call_queueTender (bare_tender ''t1'' ''A''),
              Call_queueTender (bare_tender ''t2'' ''B''), Call_processQueue]) \<le> 1"
  using queue_drain_serialized
          [of "[Call_queueTender (bare_tender ''t1'' ''A''),
                Call_queueTender (bare_tender ''t2'' ''B''), Call_processQueue]"]
  by (simp add: queue_run_def queue_init_def processQueue_enter_def)

end
